theory Spec2Isabelle
  imports Complex_Main "HOL-Library.Code_Target_Nat"
begin

section \<open>A voice agent for loan collections: the call session of \<^verbatim>\<open>app.py\<close>\<close>

text \<open>
  The program is a Flask application that keeps one call session in the module-level
  dictionary \<^verbatim>\<open>active_call_data\<close>.  A call starts with \<^verbatim>\<open>/initiate_call\<close>; every
  turn of the customer goes through \<^verbatim>\<open>/process_audio\<close>: speech to text, a lookup of the
  name when one was asked for, the system prompt composed from the customer record, the
  reply of the language model, text to speech.  The services (Deepgram, Gemini) and the
  data frame of customers are outside the program; the model takes their behaviour as
  arguments, so that every statement holds for whatever they do.
\<close>

section \<open>Python values\<close>

text \<open>
  Customer records are the dictionaries that \<^verbatim>\<open>customer_data.iloc[0].to_dict()\<close>
  returns, so their values are Python objects: \<^verbatim>\<open>None\<close>, strings, integers and floats.

  A finite float is represented by the rational number it denotes, \<open>Finite 0\<close> being the
  positive zero; the negative zero, the two infinities and not-a-number are separate
  values.  Characters are bytes, and the string operations below act on the ASCII range.
\<close>

datatype pyfloat = Finite rat | NegZero | PosInf | NegInf | NaN

datatype pyval = PyNone | PyStr string | PyInt int | PyFloat pyfloat

datatype exn = ValueError | TypeError | OverflowError | KeyError | ExternalError

text \<open>Truth value testing (\<^verbatim>\<open>if x\<close>, \<^verbatim>\<open>not x\<close>) and the comparison \<^verbatim>\<open>x == 0\<close>.\<close>

fun truthy :: "pyval \<Rightarrow> bool" where
  "truthy PyNone = False"
| "truthy (PyStr s) = (s \<noteq> [])"
| "truthy (PyInt n) = (n \<noteq> 0)"
| "truthy (PyFloat (Finite q)) = (q \<noteq> 0)"
| "truthy (PyFloat NegZero) = False"
| "truthy (PyFloat _) = True"

fun eq_zero :: "pyval \<Rightarrow> bool" where
  "eq_zero (PyInt n) = (n = 0)"
| "eq_zero (PyFloat (Finite q)) = (q = 0)"
| "eq_zero (PyFloat NegZero) = True"
| "eq_zero _ = False"

subsection \<open>Strings\<close>

text \<open>The characters that \<^verbatim>\<open>str.strip\<close> removes from both ends.\<close>

definition whitespace :: "char list" where
  "whitespace = [CHR 0x09, CHR 0x0A, CHR 0x0B, CHR 0x0C, CHR 0x0D,
                 CHR 0x1C, CHR 0x1D, CHR 0x1E, CHR 0x1F, CHR 0x20]"

definition strip_chars :: "char list \<Rightarrow> string \<Rightarrow> string" where
  "strip_chars ws s = rev (dropWhile (\<lambda>c. c \<in> set ws) (rev (dropWhile (\<lambda>c. c \<in> set ws) s)))"

text \<open>\<^verbatim>\<open>s.strip()\<close>.\<close>

definition strip :: "string \<Rightarrow> string" where
  "strip s = strip_chars whitespace s"

text \<open>
  The whitespace that \<^verbatim>\<open>int\<close> and \<^verbatim>\<open>float\<close> allow around a number: they do not take
  the four separators with the codes 28 to 31, which \<^verbatim>\<open>strip\<close> removes.
\<close>

definition number_whitespace :: "char list" where
  "number_whitespace = [CHR 0x09, CHR 0x0A, CHR 0x0B, CHR 0x0C, CHR 0x0D, CHR 0x20]"

definition lower_char :: "char \<Rightarrow> char" where
  "lower_char c =
     (case map_of (zip ''ABCDEFGHIJKLMNOPQRSTUVWXYZ'' ''abcdefghijklmnopqrstuvwxyz'') c of
        None \<Rightarrow> c | Some l \<Rightarrow> l)"

definition lower :: "string \<Rightarrow> string" where
  "lower s = map lower_char s"

text \<open>\<^verbatim>\<open>needle in hay\<close> on strings: \<open>needle\<close> occurs in \<open>hay\<close> as a contiguous block.\<close>

fun startswith :: "string \<Rightarrow> string \<Rightarrow> bool" where
  "startswith hay [] = True"
| "startswith [] (n # ns) = False"
| "startswith (h # hs) (n # ns) = (h = n \<and> startswith hs ns)"

fun contains :: "string \<Rightarrow> string \<Rightarrow> bool" where
  "contains needle [] = (needle = [])"
| "contains needle (h # hs) = (startswith (h # hs) needle \<or> contains needle hs)"

subsection \<open>Numbers and their text\<close>

definition is_digit :: "char \<Rightarrow> bool" where
  "is_digit c = (c \<in> set ''0123456789'')"

definition digit_val :: "char \<Rightarrow> nat" where
  "digit_val c = (case map_of (zip ''0123456789'' [0, 1, 2, 3, 4, 5, 6, 7, 8, 9]) c of
                    None \<Rightarrow> 0 | Some d \<Rightarrow> d)"

fun dec_digits :: "nat \<Rightarrow> string" where
  "dec_digits n =
     (if n < 10 then [''0123456789'' ! n]
      else dec_digits (n div 10) @ [''0123456789'' ! (n mod 10)])"

declare dec_digits.simps [simp del]

text \<open>\<^verbatim>\<open>str(n)\<close> for an integer.\<close>

definition str_int :: "int \<Rightarrow> string" where
  "str_int n = (if n < 0 then ''-'' @ dec_digits (nat (- n)) else dec_digits (nat n))"

text \<open>
  A decimal digit part \<^verbatim>\<open>digit (["_"] digit)*\<close> at the start of a string: its digits
  and what follows it.
\<close>

fun digitrest :: "string \<Rightarrow> string \<times> string" where
  "digitrest (c # d # cs) =
     (if c = CHR ''_'' \<and> is_digit d then (let (ds, r) = digitrest cs in (d # ds, r))
      else if is_digit c then (let (ds, r) = digitrest (d # cs) in (c # ds, r))
      else ([], c # d # cs))"
| "digitrest [c] = (if is_digit c then ([c], []) else ([], [c]))"
| "digitrest [] = ([], [])"

fun digitpart :: "string \<Rightarrow> string \<times> string" where
  "digitpart (c # cs) = (if is_digit c then (let (ds, r) = digitrest cs in (c # ds, r)) else ([], c # cs))"
| "digitpart [] = ([], [])"

definition digits_val :: "string \<Rightarrow> nat" where
  "digits_val ds = foldl (\<lambda>a c. 10 * a + digit_val c) 0 ds"

text \<open>An optional sign: \<open>True\<close> when it is a minus, and what follows it.\<close>

fun signpart :: "string \<Rightarrow> bool \<times> string" where
  "signpart (c # cs) =
     (if c = CHR ''-'' then (True, cs) else if c = CHR ''+'' then (False, cs) else (False, c # cs))"
| "signpart [] = (False, [])"

text \<open>\<^verbatim>\<open>int(s)\<close> for a string: surrounding whitespace, a sign, a digit part.\<close>

definition int_of_str :: "string \<Rightarrow> int option" where
  "int_of_str s =
     (let (neg, r) = signpart (strip_chars number_whitespace s); (ds, r') = digitpart r
      in if ds = [] \<or> r' \<noteq> [] then None
         else Some (if neg then - int (digits_val ds) else int (digits_val ds)))"

text \<open>Rounding to an integer, a tie going to the even neighbour.\<close>

definition round_half_even :: "rat \<Rightarrow> int" where
  "round_half_even x =
     (let f = \<lfloor>x\<rfloor>; d = x - of_int f
      in if d < 1 / 2 then f else if 1 / 2 < d then f + 1 else if even f then f else f + 1)"

text \<open>
  The double nearest to a number, given by its sign and its magnitude.  A double has 53
  significant bits, so the magnitude \<open>a\<close> with \<open>2 ^ e \<le> a < 2 ^ (e + 1)\<close> is rounded to a
  multiple of \<open>2 ^ (e - 52)\<close>, and of \<open>2 ^ - 1074\<close> at the least, a tie going to the even
  multiple.  A result that reaches \<open>2 ^ 1024\<close> is an infinity, and one that is zero keeps
  the sign.
\<close>

fun bit_length :: "nat \<Rightarrow> nat" where
  "bit_length n = (if n = 0 then 0 else Suc (bit_length (n div 2)))"

declare bit_length.simps [simp del]

definition pow2 :: "int \<Rightarrow> rat" where
  "pow2 k = (if 0 \<le> k then 2 ^ nat k else 1 / 2 ^ nat (- k))"

definition floor_log2 :: "rat \<Rightarrow> int" where
  "floor_log2 a =
     (let (n, d) = quotient_of a;
          k = int (bit_length (nat n)) - int (bit_length (nat d))
      in if pow2 k \<le> a then k else k - 1)"

definition round_double :: "bool \<Rightarrow> rat \<Rightarrow> pyfloat" where
  "round_double neg a =
     (if a = 0 then (if neg then NegZero else Finite 0)
      else
        (let u = max (floor_log2 a - 52) (- 1074);
             m = round_half_even (a / pow2 u);
             r = of_int m * pow2 u
         in if pow2 1024 \<le> r then (if neg then NegInf else PosInf)
            else if m = 0 then (if neg then NegZero else Finite 0)
            else Finite (if neg then - r else r)))"

text \<open>
  \<^verbatim>\<open>float(s)\<close> for a string: surrounding whitespace, a sign, then \<^verbatim>\<open>inf\<close>,
  \<^verbatim>\<open>infinity\<close> or \<^verbatim>\<open>nan\<close> in any case, or a decimal number with an optional
  fraction and exponent, rounded to the nearest double.
\<close>

definition exponentpart :: "string \<Rightarrow> int option" where
  "exponentpart r =
     (case r of
        [] \<Rightarrow> Some 0
      | c # cs \<Rightarrow>
          if c = CHR ''e'' \<or> c = CHR ''E'' then
            (let (neg, r1) = signpart cs; (ds, r2) = digitpart r1
             in if ds = [] \<or> r2 \<noteq> [] then None
                else Some (if neg then - int (digits_val ds) else int (digits_val ds)))
          else None)"

definition scale10 :: "nat \<Rightarrow> int \<Rightarrow> rat" where
  "scale10 m e = (if 0 \<le> e then of_nat m * 10 ^ nat e else of_nat m / 10 ^ nat (- e))"

definition number_of_str :: "string \<Rightarrow> rat option" where
  "number_of_str r =
     (let (ip, r1) = digitpart r;
          (fp, r2) = (case r1 of c # cs \<Rightarrow> if c = CHR ''.'' then digitpart cs else ([], r1)
                      | [] \<Rightarrow> ([], r1));
          dotted = (case r1 of c # cs \<Rightarrow> c = CHR ''.'' | [] \<Rightarrow> False)
      in if ip = [] \<and> fp = [] then None
         else if ip = [] \<and> \<not> dotted then None
         else (case exponentpart r2 of
                 None \<Rightarrow> None
               | Some e \<Rightarrow> Some (scale10 (digits_val (ip @ fp)) (e - int (length fp)))))"

definition float_of_str :: "string \<Rightarrow> pyfloat option" where
  "float_of_str s =
     (let (neg, r) = signpart (strip_chars number_whitespace s)
      in if lower r = ''inf'' \<or> lower r = ''infinity'' then Some (if neg then NegInf else PosInf)
         else if lower r = ''nan'' then Some NaN
         else (case number_of_str r of
                 None \<Rightarrow> None
               | Some q \<Rightarrow> Some (round_double neg q)))"

text \<open>
  \<^verbatim>\<open>float(x)\<close>.  An integer up to \<open>2 ^ 53\<close> is a double; a larger one is rounded to
  the nearest double, and raises \<^verbatim>\<open>OverflowError\<close> when that is no finite one.
\<close>

fun py_float :: "pyval \<Rightarrow> exn + pyfloat" where
  "py_float PyNone = Inl TypeError"
| "py_float (PyStr s) = (case float_of_str s of None \<Rightarrow> Inl ValueError | Some f \<Rightarrow> Inr f)"
| "py_float (PyInt n) =
     (if \<bar>n\<bar> \<le> 2 ^ 53 then Inr (Finite (of_int n))
      else (case round_double (n < 0) (of_int \<bar>n\<bar>) of
              PosInf \<Rightarrow> Inl OverflowError
            | NegInf \<Rightarrow> Inl OverflowError
            | f \<Rightarrow> Inr f))"
| "py_float (PyFloat f) = Inr f"

text \<open>\<^verbatim>\<open>int(x)\<close>: a float is truncated towards zero.\<close>

fun py_int :: "pyval \<Rightarrow> exn + int" where
  "py_int PyNone = Inl TypeError"
| "py_int (PyStr s) = (case int_of_str s of None \<Rightarrow> Inl ValueError | Some n \<Rightarrow> Inr n)"
| "py_int (PyInt n) = Inr n"
| "py_int (PyFloat (Finite q)) = Inr (if 0 \<le> q then \<lfloor>q\<rfloor> else \<lceil>q\<rceil>)"
| "py_int (PyFloat NegZero) = Inr 0"
| "py_int (PyFloat NaN) = Inl ValueError"
| "py_int (PyFloat _) = Inl OverflowError"

text \<open>
  \<^verbatim>\<open>x * 0.5\<close> for a float \<open>x\<close>.  Halving a double is exact, but for a result below the
  smallest normal double, which is kept exact here; such a result and its rounding both
  print as zero with two decimals.
\<close>

fun half :: "pyfloat \<Rightarrow> pyfloat" where
  "half (Finite q) = Finite (q * (1 / 2))"
| "half f = f"

text \<open>
  The format specification \<^verbatim>\<open>,.2f\<close>: two decimals, rounded half to even on the exact
  value, the integer part grouped in thousands by commas.
\<close>

fun group3 :: "string \<Rightarrow> string" where
  "group3 (a # b # c # d # ds) = a # b # c # CHR '','' # group3 (d # ds)"
| "group3 ds = ds"

definition group_thousands :: "string \<Rightarrow> string" where
  "group_thousands ds = rev (group3 (rev ds))"

definition two_digits :: "nat \<Rightarrow> string" where
  "two_digits n = [''0123456789'' ! (n div 10), ''0123456789'' ! (n mod 10)]"

fun format_2f :: "pyfloat \<Rightarrow> string" where
  "format_2f (Finite q) =
     (let cents = nat (round_half_even (\<bar>q\<bar> * 100))
      in (if q < 0 then ''-'' else '''') @ group_thousands (dec_digits (cents div 100)) @ ''.'' @
         two_digits (cents mod 100))"
| "format_2f NegZero = ''-0.00''"
| "format_2f PosInf = ''inf''"
| "format_2f NegInf = ''-inf''"
| "format_2f NaN = ''nan''"


section \<open>Customer records and the directory\<close>

text \<open>
  A customer record is the dictionary of one row of the data frame.  \<^verbatim>\<open>load_data\<close> casts
  the column \<^verbatim>\<open>Random_Name\<close> to \<^verbatim>\<open>str\<close>, so the entry under that key, when there
  is one, is a string; the other columns hold Python values under distinct keys.
\<close>

record customer =
  Random_Name :: "string option"
  columns :: "(string \<times> pyval) list"

text \<open>A dictionary is true when it is not empty; \<^verbatim>\<open>None\<close> is false.\<close>

definition dict_truthy :: "customer \<Rightarrow> bool" where
  "dict_truthy d = (Random_Name d \<noteq> None \<or> columns d \<noteq> [])"

definition info_truthy :: "customer option \<Rightarrow> bool" where
  "info_truthy c = (case c of None \<Rightarrow> False | Some d \<Rightarrow> dict_truthy d)"

text \<open>\<^verbatim>\<open>d.get(key, default)\<close> on the numeric columns.\<close>

definition dict_get :: "customer \<Rightarrow> string \<Rightarrow> pyval \<Rightarrow> pyval" where
  "dict_get d k dflt = (case map_of (columns d) k of None \<Rightarrow> dflt | Some v \<Rightarrow> v)"

text \<open>
  \<^verbatim>\<open>get_customer_details\<close>: the first row whose name equals the query after both are
  stripped and lower-cased; \<^verbatim>\<open>None\<close> for an empty data frame or when no row matches.
\<close>

definition name_matches :: "string \<Rightarrow> customer \<Rightarrow> bool" where
  "name_matches name row =
     (case Random_Name row of None \<Rightarrow> False | Some n \<Rightarrow> lower (strip n) = lower (strip name))"

definition get_customer_details :: "customer list \<Rightarrow> string \<Rightarrow> customer option" where
  "get_customer_details customer_df name = find (name_matches name) customer_df"

section \<open>The prompt composer\<close>

text \<open>
  \<^verbatim>\<open>format_currency\<close>: \<^verbatim>\<open>f"${float(amount):,.2f}"\<close>, and in the handler of
  \<^verbatim>\<open>ValueError\<close> and \<^verbatim>\<open>TypeError\<close> the text \<^verbatim>\<open>str(amount) if amount else "N/A"\<close>.
  Only \<^verbatim>\<open>None\<close> and strings reach the handler; an \<^verbatim>\<open>OverflowError\<close> is not handled.
\<close>

definition format_currency :: "pyval \<Rightarrow> exn + string" where
  "format_currency amount =
     (case py_float amount of
        Inr f \<Rightarrow> Inr (''$'' @ format_2f f)
      | Inl e \<Rightarrow>
          if e = ValueError \<or> e = TypeError then
            Inr (case amount of PyStr s \<Rightarrow> (if truthy amount then s else ''N/A'') | _ \<Rightarrow> ''N/A'')
          else Inl e)"

definition UNKNOWN_CUSTOMER_PLACEHOLDER :: string where
  "UNKNOWN_CUSTOMER_PLACEHOLDER = ''the customer (name not yet identified)''"

text \<open>The keyword arguments of \<^verbatim>\<open>LLM_SYSTEM_PROMPT_TEMPLATE.format\<close>.\<close>

record format_args =
  customer_name :: string
  loan_amount :: string
  monthly_debt :: string
  half_monthly_debt :: string
  credit_score_text :: string
  unknown_customer_placeholder :: string

text \<open>
  The template is kept as \<^verbatim>\<open>str.format\<close> reads it: literal text and replacement fields,
  in order.  The literal texts are the lines of the source between the fields.
\<close>

datatype piece = Lit string | Arg "format_args \<Rightarrow> string"

definition str_format :: "piece list \<Rightarrow> format_args \<Rightarrow> string" where
  "str_format t a = concat (map (\<lambda>p. case p of Lit s \<Rightarrow> s | Arg f \<Rightarrow> f a) t)"

definition template_text_0 :: string where
  \<open>template_text_0 =
     ''\<newline>'' @
     ''You are LoanMate, an advanced AI collections agent for Global Finance Solutions. Your primary objective is to discuss outstanding loan payments with customers in a way that is **exceptionally human-like, deeply empathetic, and highly understanding.** Your goal is not just to collect payments, but to do so while preserving and even enhancing the customer's relationship with Global Finance Solutions.\<newline>'' @
     ''\<newline>'' @
     ''**Your Core Persona & Emotional Intelligence:**\<newline>'' @
     ''*   **Empathetic Listener:** Actively listen to the customer. Your first priority is to make them feel heard and understood, especially if they are distressed.\<newline>'' @
     ''*   **Warm & Approachable:** Your tone should be consistently warm, patient, and reassuring. Avoid sounding robotic, scripted, or judgmental.\<newline>'' @
     ''*   **Emotionally Astute:** Detect and mirror the customer's emotional state appropriately. If they are sad, be compassionate. If they are frustrated, be patient and understanding. If they are cooperative, be appreciative.\<newline>'' @
     ''*   **Natural Conversationalist:** Use natural language, vary your sentence structure, use conversational fillers if appropriate (e.g., "I see," "Hmm, I understand," "Well,"), and avoid repetitive phrases. Your responses should flow like a real human conversation.\<newline>'' @
     ''\<newline>'' @
     ''**Understanding and Responding to Situations:**\<newline>'' @
     ''*   **Beyond Keywords:** Do not rely solely on keywords. Understand the *intent* and *context* behind the customer's words. If a customer says, "Things have been really tough since the factory closed," understand this implies job loss and financial hardship without them needing to say "I lost my job."\<newline>'' @
     ''*   **Handling Sensitive Information:**\<newline>'' @
     ''    *   If a customer mentions health issues (their own or a family member's: "hospital," "sick," "doctor," "surgery," "medical bills"), accidents ("car crash," "injured"), death or bereavement ("passed away," "funeral," "condolences"), job loss ("laid off," "unemployed," "no income"), or general severe hardship ("crisis," "struggling badly," "difficult times"):\<newline>'' @
     ''        1.  **Prioritize Empathy:** Immediately offer genuine, heartfelt sympathy and acknowledge the difficulty of their situation. For example: "Oh, I am so incredibly sorry to hear you're going through that. That sounds exceptionally challenging, and my thoughts are with you." or "Please accept my deepest condolences. That's a terrible loss, and I can only imagine how difficult this time must be."\<newline>'' @
     ''        2.  **Gentle Transition:** After expressing empathy, if appropriate and after a slight pause or acknowledgment from them, gently and respectfully inquire if they are in a position to discuss the loan, or if there's anything related to the loan account that might ease their burden slightly (like exploring options if company policy allows).\<newline>'' @
     ''*   **Payment Discussions:**\<newline>'' @
     ''    *   **Customer Context (Provided to you):**\<newline>'' @
     ''        *   Customer Name: ''\<close>

definition template_text_1 :: string where
  \<open>template_text_1 =
     ''\<newline>'' @
     ''        *   Current Loan Amount: ''\<close>

definition template_text_2 :: string where
  \<open>template_text_2 =
     ''\<newline>'' @
     ''        *   Monthly EMI: ''\<close>

definition template_text_3 :: string where
  \<open>template_text_3 =
     ''\<newline>'' @
     ''        *   Credit Score: ''\<close>

definition template_text_4 :: string where
  \<open>template_text_4 =
     ''\<newline>'' @
     ''    *   **Initial Interaction Strategy (VERY IMPORTANT - Follow this based on 'Customer Name' above):**\<newline>'' @
     ''        *   If "Customer Name" is "''\<close>

definition template_text_5 :: string where
  \<open>template_text_5 =
     ''": Your *first and only goal* for your initial response is to politely ask for their full name to look up their account. Example: "Hello, this is LoanMate from Global Finance Solutions. To start, could you please tell me your full name so I can bring up your account details?" Do NOT proceed with any loan details until you have a name. Await their response.\<newline>'' @
     ''        *   If a specific "Customer Name" (e.g., "John Doe") is provided: Your initial response should be to greet them by name, confirm if it's a good time to talk, and then state the purpose: "Hello ''\<close>

definition template_text_6 :: string where
  \<open>template_text_6 =
     '', this is LoanMate from Global Finance Solutions. Is this a good time to talk? I'm calling regarding your loan account. The current outstanding amount is ''\<close>

definition template_text_7 :: string where
  \<open>template_text_7 =
     '', with a monthly payment of ''\<close>

definition template_text_8 :: string where
  \<open>template_text_8 =
     '' which is now due. I was hoping we could discuss that today."\<newline>'' @
     ''    *   **Inability to Pay Full Amount:** If they cannot pay the full amount, explore the reasons with understanding. "I understand that making the full payment might be difficult right now."\<newline>'' @
     ''    *   **Offering Partial Payment (50%):** If full payment isn't possible, and after understanding their situation (especially if sensitive), gently suggest a partial payment: "Given what you've shared, I completely understand that the full amount might be a stretch. To help keep the account in good standing and avoid further issues, would it be at all possible to manage at least 50% of that, which would be ''\<close>

definition template_text_9 :: string where
  \<open>template_text_9 =
     '', for now?"\<newline>'' @
     ''    *   **Explaining Consequences:** If they refuse any payment or ask for extensions beyond policy, you must explain the consequences (late fees, credit score impact, further collection). Do this *gently but clearly*, framing it as information to help them avoid negative outcomes, not as a threat. "I want to be transparent about how this works. If the payment isn't made, it can unfortunately lead to things like late fees and could impact your credit score (currently ''\<close>

definition template_text_10 :: string where
  \<open>template_text_10 =
     ''), which we certainly want to help you avoid."\<newline>'' @
     ''    *   **Negotiation (if allowed by policy):** Be open to what the customer *can* do. "What amount do you feel you could manage today, even if it's not the full 50%? Any payment helps."\<newline>'' @
     ''*   **Call Closure:**\<newline>'' @
     ''    * If payment agreed (full or partial): Thank them, provide generic payment instructions (e.g., "You can make the payment through our online portal or by calling our payment line."), and end politely.\<newline>'' @
     ''    * If no consent to talk or final refusal: Politely acknowledge and end the call. For refusal, reiterate awareness of consequences if appropriate.\<newline>'' @
     ''*   **Maintaining Control & Objective:** While being empathetic, remember the call's purpose. Gently guide the conversation back to the payment if it strays too far for too long, but only after adequately addressing the customer's immediate emotional needs or concerns.\<newline>'' @
     ''*   **Flexibility:** Be prepared for unexpected questions or statements. Don't get flustered. Use your understanding to respond appropriately. If you don't have an answer, say you'll find out (if that's an option) or politely state the limits of your knowledge.\<newline>'' @
     ''\<newline>'' @
     ''**Output:**\<newline>'' @
     ''*   Your response should be plain text, suitable for a Text-to-Speech (TTS) engine.\<newline>'' @
     ''*   Do NOT include non-verbal cues like "[gentle tone]" in your text response. The TTS engine should handle expressiveness based on its capabilities and the inherent emotion in the text.\<newline>'' @
     ''*   Keep responses concise and conversational.\<newline>''\<close>

definition LLM_SYSTEM_PROMPT_TEMPLATE :: "piece list" where
  "LLM_SYSTEM_PROMPT_TEMPLATE =
     [Lit template_text_0,
      Arg customer_name,
      Lit template_text_1,
      Arg loan_amount,
      Lit template_text_2,
      Arg monthly_debt,
      Lit template_text_3,
      Arg credit_score_text,
      Lit template_text_4,
      Arg unknown_customer_placeholder,
      Lit template_text_5,
      Arg customer_name,
      Lit template_text_6,
      Arg loan_amount,
      Lit template_text_7,
      Arg monthly_debt,
      Lit template_text_8,
      Arg half_monthly_debt,
      Lit template_text_9,
      Arg credit_score_text,
      Lit template_text_10]"

definition and_then :: "exn + 'a \<Rightarrow> ('a \<Rightarrow> exn + 'b) \<Rightarrow> exn + 'b" where
  "and_then r f = (case r of Inl e \<Rightarrow> Inl e | Inr v \<Rightarrow> f v)"

text \<open>
  The two branches of \<^verbatim>\<open>generate_system_prompt\<close>, up to the call of \<^verbatim>\<open>format\<close>.  In the
  branch of a known customer the statements run in the order of the source, and the first
  exception ends the function: \<^verbatim>\<open>float(emi_val)\<close> and \<^verbatim>\<open>int(score_val)\<close> stand outside
  any handler.
\<close>

definition known_customer_args :: "customer \<Rightarrow> exn + format_args" where
  "known_customer_args d =
     (let name = (case Random_Name d of None \<Rightarrow> UNKNOWN_CUSTOMER_PLACEHOLDER | Some n \<Rightarrow> n);
          loan_val = dict_get d ''Current Loan Amount'' (PyInt 0);
          emi_val = dict_get d ''Monthly Debt'' (PyInt 0)
      in and_then (format_currency loan_val) (\<lambda>loan.
         and_then (format_currency emi_val) (\<lambda>emi.
         and_then (if truthy emi_val
                   then and_then (py_float emi_val) (\<lambda>f. Inr (PyFloat (half f)))
                   else Inr (PyInt 0)) (\<lambda>half_val.
         and_then (format_currency half_val) (\<lambda>half_emi.
         let score_val = dict_get d ''Credit Score'' (PyInt 0)
         in and_then (if \<not> truthy score_val \<or> eq_zero score_val then Inr ''N/A''
                      else and_then (py_int score_val) (\<lambda>n. Inr (str_int n))) (\<lambda>score.
         Inr \<lparr>customer_name = name, loan_amount = loan, monthly_debt = emi,
              half_monthly_debt = half_emi, credit_score_text = score,
              unknown_customer_placeholder = UNKNOWN_CUSTOMER_PLACEHOLDER\<rparr>))))))"

definition unknown_customer_args :: format_args where
  "unknown_customer_args =
     \<lparr>customer_name = UNKNOWN_CUSTOMER_PLACEHOLDER,
      loan_amount = ''N/A (details not yet available)'',
      monthly_debt = ''N/A (details not yet available)'',
      half_monthly_debt = ''N/A (details not yet available)'',
      credit_score_text = ''N/A (details not yet available)'',
      unknown_customer_placeholder = UNKNOWN_CUSTOMER_PLACEHOLDER\<rparr>"

definition prompt_args :: "customer option \<Rightarrow> exn + format_args" where
  "prompt_args customer_info_dict =
     (case customer_info_dict of
        None \<Rightarrow> Inr unknown_customer_args
      | Some d \<Rightarrow> if dict_truthy d then known_customer_args d else Inr unknown_customer_args)"

definition generate_system_prompt :: "customer option \<Rightarrow> exn + string" where
  "generate_system_prompt customer_info_dict =
     and_then (prompt_args customer_info_dict) (\<lambda>a. Inr (str_format LLM_SYSTEM_PROMPT_TEMPLATE a))"

section \<open>The call session\<close>

datatype role = user | model

datatype message = Message (msg_role: role) (msg_text: string)

record active_call_data =
  customer_info :: "customer option"
  conversation_history :: "message list"
  asked_for_name_in_last_turn :: bool

definition initial_call_data :: active_call_data where
  "initial_call_data =
     \<lparr>customer_info = None, conversation_history = [], asked_for_name_in_last_turn = False\<rparr>"

text \<open>What the module fixes when it is loaded: whether Gemini is configured, and the data frame.\<close>

record config =
  gemini_configured :: bool
  customer_df :: "customer list"

section \<open>The dialogue engine\<close>

text \<open>
  The Gemini client is outside the program.  One call of \<^verbatim>\<open>model.generate_content\<close> either
  raises or returns a response: its parts (each with or without a \<^verbatim>\<open>text\<close>), its
  \<^verbatim>\<open>text\<close> and its prompt feedback.  A field that is missing or false is \<open>None\<close>.  A
  response whose attributes raise when they are read counts as a call that raises: both
  end in the same handler.
\<close>

record prompt_feedback =
  block_reason_message :: "string option"
  block_reason :: "string option"

record gemini_response =
  parts :: "string option list"
  response_text :: "string option"
  feedback :: "prompt_feedback option"

datatype gemini_outcome = GeminiRaises | GeminiReturns gemini_response

datatype contents = Trigger string | History "message list"

type_synonym gemini = "string \<Rightarrow> contents \<Rightarrow> gemini_outcome"

definition MOCK_NAME_GIVEN :: string where
  "MOCK_NAME_GIVEN = ''Thank you. My name is Mock User. What is this call regarding?''"

definition MOCK_ASK_NAME :: string where
  "MOCK_ASK_NAME = ''Hello, this is LoanMate from Global Finance Solutions. Could you please tell me your full name so I can bring up your account details?''"

definition mock_greeting :: "string \<Rightarrow> string" where
  "mock_greeting name = ''Hello '' @ name @ '', this is LoanMate from Global Finance Solutions. Your mock loan of $1000 is due. Can you pay?''"

definition block_reason_msg :: "prompt_feedback option \<Rightarrow> string" where
  "block_reason_msg fb =
     (case fb of
        None \<Rightarrow> ''''
      | Some f \<Rightarrow>
          (case block_reason_message f of
             Some m \<Rightarrow> '' Reason: '' @ m @ ''.''
           | None \<Rightarrow>
               (case block_reason f of
                  Some r \<Rightarrow> '' Reason code: '' @ r @ ''.''
                | None \<Rightarrow> '''')))"

definition live_reply :: "gemini \<Rightarrow> string \<Rightarrow> message list \<Rightarrow> string" where
  "live_reply generate_content system_prompt_text conversation_history_for_llm =
     (let effective_contents_for_gemini =
            (if conversation_history_for_llm = []
             then Trigger ''Please begin the conversation according to your system instructions.''
             else History conversation_history_for_llm)
      in case generate_content system_prompt_text effective_contents_for_gemini of
           GeminiRaises \<Rightarrow>
             ''I'm sorry, I'm having trouble connecting to my main system right now. Please try again in a moment.''
         | GeminiReturns response \<Rightarrow>
             if parts response \<noteq> [] \<or> (case response_text response of None \<Rightarrow> False | Some t \<Rightarrow> t \<noteq> [])
             then
               (let bot_response_text =
                      strip (if parts response \<noteq> []
                             then concat (map (\<lambda>p. case p of None \<Rightarrow> [] | Some t \<Rightarrow> t) (parts response))
                             else (case response_text response of None \<Rightarrow> [] | Some t \<Rightarrow> t))
                in if bot_response_text = []
                   then ''I seem to be at a loss for words. Could you try that again?''
                   else bot_response_text)
             else ''My apologies, my response was prevented due to a content filter.'' @
                  block_reason_msg (feedback response) @
                  '' Could we try rephrasing or discussing a different aspect?'')"

text \<open>
  \<^verbatim>\<open>call_gemini_model\<close> reads the session when Gemini is not configured.  The mock greeting
  of a known customer indexes the record with \<^verbatim>\<open>['Random_Name']\<close>, outside any handler.
\<close>

definition call_gemini_model ::
  "config \<Rightarrow> gemini \<Rightarrow> active_call_data \<Rightarrow> string \<Rightarrow> message list \<Rightarrow> exn + string" where
  "call_gemini_model cfg generate_content st system_prompt_text conversation_history_for_llm =
     (if \<not> gemini_configured cfg then
        (if asked_for_name_in_last_turn st \<and> \<not> info_truthy (customer_info st) then Inr MOCK_NAME_GIVEN
         else if info_truthy (customer_info st) then
           (case customer_info st of
              Some d \<Rightarrow> (case Random_Name d of None \<Rightarrow> Inl KeyError | Some n \<Rightarrow> Inr (mock_greeting n))
            | None \<Rightarrow> Inr MOCK_ASK_NAME)
         else Inr MOCK_ASK_NAME)
      else Inr (live_reply generate_content system_prompt_text conversation_history_for_llm))"

section \<open>Speech synthesis\<close>

text \<open>
  The Deepgram client is outside the program as well.  A call of \<^verbatim>\<open>stream_memory\<close> raises,
  returns a response without a usable stream, or returns a stream with its bytes.  The
  number counts the calls within one request, so that two calls with the same text may
  end differently.
\<close>

type_synonym audio = "nat list"

datatype speak_outcome = SpeakRaises | NoStream | Stream audio

type_synonym speaker = "nat \<Rightarrow> string \<Rightarrow> speak_outcome"

definition text_to_speech :: "speaker \<Rightarrow> nat \<Rightarrow> string \<Rightarrow> exn + audio" where
  "text_to_speech speak i text0 =
     (let text1 = (if text0 = [] then ''I encountered an internal error and cannot respond right now.''
                   else text0)
      in case speak i text1 of
           Stream audio_bytes \<Rightarrow>
             if audio_bytes \<noteq> [] then Inr audio_bytes
             else (case speak (i + 1) ''I'm having trouble speaking at the moment. Please try again later.'' of
                     Stream fb \<Rightarrow> if fb \<noteq> [] then Inr fb else Inl ValueError
                   | NoStream \<Rightarrow> Inl ValueError
                   | SpeakRaises \<Rightarrow> Inl ExternalError)
         | _ \<Rightarrow>
             (case speak (i + 1) ''I'm having trouble speaking at the moment. Please try again later.'' of
                Stream fb \<Rightarrow> if fb \<noteq> [] then Inr fb else Inl ValueError
              | NoStream \<Rightarrow> Inl ValueError
              | SpeakRaises \<Rightarrow> Inl ExternalError))"

section \<open>The routes\<close>

text \<open>
  A route takes the session and returns the response with the session it leaves behind.
  \<open>Aborted\<close> is the response of Flask to an exception that no handler of the route catches.
\<close>

datatype response =
    Page
  | SendFile audio nat
  | Json string nat
  | Aborted exn

definition index_route :: "active_call_data \<Rightarrow> response \<times> active_call_data" where
  "index_route st =
     (Page, st\<lparr>customer_info := None, conversation_history := [],
               asked_for_name_in_last_turn := False\<rparr>)"

text \<open>
  The body of \<^verbatim>\<open>/initiate_call\<close>: a JSON object with or without a string under
  \<^verbatim>\<open>customerName\<close>; any other body raises before the session is touched.
\<close>

datatype call_request = BadRequest | CustomerName "string option"

definition initiate_call_route ::
  "config \<Rightarrow> gemini \<Rightarrow> speaker \<Rightarrow> call_request \<Rightarrow> active_call_data \<Rightarrow> response \<times> active_call_data" where
  "initiate_call_route cfg generate_content speak req st =
     (case req of
        BadRequest \<Rightarrow> (Aborted ExternalError, st)
      | CustomerName given \<Rightarrow>
          (let customer_name_input = strip (case given of None \<Rightarrow> [] | Some s \<Rightarrow> s);
               st0 = st\<lparr>conversation_history := [], customer_info := None,
                        asked_for_name_in_last_turn := False\<rparr>;
               st1 = (if customer_name_input \<noteq> [] then
                        (let customer_details = get_customer_details (customer_df cfg) customer_name_input
                         in if info_truthy customer_details then st0\<lparr>customer_info := customer_details\<rparr>
                            else st0)
                      else st0)
           in (case generate_system_prompt (customer_info st1) of
                 Inl e \<Rightarrow> (Aborted e, st1)
               | Inr system_prompt \<Rightarrow>
                   (case call_gemini_model cfg generate_content st1 system_prompt (conversation_history st1) of
                      Inl e \<Rightarrow> (Aborted e, st1)
                    | Inr bot_response_text \<Rightarrow>
                        (let st2 = (if \<not> info_truthy (customer_info st1) \<and>
                                       contains UNKNOWN_CUSTOMER_PLACEHOLDER system_prompt
                                    then st1\<lparr>asked_for_name_in_last_turn := True\<rparr> else st1);
                             st3 = st2\<lparr>conversation_history :=
                                         conversation_history st2 @ [Message model bot_response_text]\<rparr>
                         in (case text_to_speech speak 0 bot_response_text of
                               Inr audio_bytes \<Rightarrow> (SendFile audio_bytes 200, st3)
                             | Inl e \<Rightarrow> (Json ''TTS Error'' 500, st3)))))))"

text \<open>
  The speech-to-text call raises or returns a response; of the response the route reads
  \<^verbatim>\<open>results.channels[0].alternatives[0].transcript\<close> when every step of that path is
  there, and takes the empty transcript otherwise.
\<close>

datatype stt_outcome = SttRaises | SttReturns "string list list option"

fun transcript_of :: "string list list option \<Rightarrow> string" where
  "transcript_of (Some ((t # alternatives) # channels)) = t"
| "transcript_of _ = []"

definition MAX_HISTORY_TURNS :: nat where
  "MAX_HISTORY_TURNS = 10"

text \<open>The steps of one turn that write the session, in the order of the source.\<close>

definition append_customer_utterance :: "string \<Rightarrow> active_call_data \<Rightarrow> active_call_data" where
  "append_customer_utterance transcript st =
     st\<lparr>conversation_history := conversation_history st @ [Message user transcript]\<rparr>"

definition resolve_identity :: "config \<Rightarrow> string \<Rightarrow> active_call_data \<Rightarrow> active_call_data" where
  "resolve_identity cfg transcript st =
     (if asked_for_name_in_last_turn st \<and> \<not> info_truthy (customer_info st) then
        (let potential_name = strip transcript;
             customer_details = get_customer_details (customer_df cfg) potential_name
         in (if info_truthy customer_details then st\<lparr>customer_info := customer_details\<rparr> else st)
            \<lparr>asked_for_name_in_last_turn := False\<rparr>)
      else st)"

definition note_name_request :: "string \<Rightarrow> string \<Rightarrow> active_call_data \<Rightarrow> active_call_data" where
  "note_name_request system_prompt bot_response_text st =
     (if \<not> info_truthy (customer_info st) \<and> contains UNKNOWN_CUSTOMER_PLACEHOLDER system_prompt then
        (if contains ''name'' (lower bot_response_text) \<and>
            (contains ''what is your'' (lower bot_response_text) \<or>
             contains ''could you tell me'' (lower bot_response_text))
         then st\<lparr>asked_for_name_in_last_turn := True\<rparr> else st)
      else st)"

definition append_agent_utterance :: "string \<Rightarrow> active_call_data \<Rightarrow> active_call_data" where
  "append_agent_utterance bot_response_text st =
     st\<lparr>conversation_history := conversation_history st @ [Message model bot_response_text]\<rparr>"

definition trim_history :: "active_call_data \<Rightarrow> active_call_data" where
  "trim_history st =
     (if length (conversation_history st) > MAX_HISTORY_TURNS * 2 then
        st\<lparr>conversation_history :=
             drop (length (conversation_history st) - MAX_HISTORY_TURNS * 2) (conversation_history st)\<rparr>
      else st)"

text \<open>
  The handler at the end of \<^verbatim>\<open>/process_audio\<close>.  It has an apology spoken and passes
  the audio to \<^verbatim>\<open>send_file\<close> with the keyword \<^verbatim>\<open>status=500\<close>.  \<^verbatim>\<open>send_file\<close> has
  no such keyword, so that call raises \<^verbatim>\<open>TypeError\<close> inside the inner \<^verbatim>\<open>try\<close>, and the
  inner handler answers with JSON, as it does when the apology cannot be spoken.  The
  handler does not write the session.
\<close>

definition error_response :: "speaker \<Rightarrow> response" where
  "error_response speak =
     (case text_to_speech speak 2 ''I've encountered an unexpected problem. Please try your request again later.'' of
        Inr error_audio_bytes \<Rightarrow> Json ''Critical System Error'' 500
      | Inl tts_e \<Rightarrow> Json ''Critical System Error'' 500)"

text \<open>
  \<^verbatim>\<open>/process_audio\<close>.  The request carries the file \<^verbatim>\<open>audio_data\<close> or not; with the
  file, the outcome of reading and transcribing it.
\<close>

definition process_audio_route ::
  "config \<Rightarrow> gemini \<Rightarrow> speaker \<Rightarrow> stt_outcome option \<Rightarrow> active_call_data \<Rightarrow> response \<times> active_call_data" where
  "process_audio_route cfg generate_content speak audio_data st =
     (case audio_data of
        None \<Rightarrow> (Json ''No audio data'' 400, st)
      | Some SttRaises \<Rightarrow> (error_response speak, st)
      | Some (SttReturns response_stt_obj) \<Rightarrow>
          (let transcript = transcript_of response_stt_obj
           in if transcript = [] then
                (case text_to_speech speak 0 ''I'm sorry, I didn't catch that. Could you please repeat?'' of
                   Inr audio_bytes \<Rightarrow> (SendFile audio_bytes 200, st)
                 | Inl e \<Rightarrow> (error_response speak, st))
              else
                (let st1 = resolve_identity cfg transcript (append_customer_utterance transcript st)
                 in (case generate_system_prompt (customer_info st1) of
                       Inl e \<Rightarrow> (error_response speak, st1)
                     | Inr system_prompt \<Rightarrow>
                         (case call_gemini_model cfg generate_content st1 system_prompt (conversation_history st1) of
                            Inl e \<Rightarrow> (error_response speak, st1)
                          | Inr bot_response_text \<Rightarrow>
                              (let st2 = trim_history
                                           (append_agent_utterance bot_response_text
                                              (note_name_request system_prompt bot_response_text st1))
                               in (case text_to_speech speak 0 bot_response_text of
                                     Inr audio_bytes \<Rightarrow> (SendFile audio_bytes 200, st2)
                                   | Inl e \<Rightarrow> (error_response speak, st2))))))))"

text \<open>
  Two names for the statements below: the session once the customer's utterance is in it
  (appended, and looked up as a name when one was awaited), and the session once the agent's
  reply is in it (the flag set anew, the reply appended, the history trimmed).
\<close>

abbreviation (input) after_hearing :: "config \<Rightarrow> string \<Rightarrow> active_call_data \<Rightarrow> active_call_data" where
  "after_hearing cfg t st \<equiv> resolve_identity cfg t (append_customer_utterance t st)"

abbreviation (input) after_reply :: "string \<Rightarrow> string \<Rightarrow> active_call_data \<Rightarrow> active_call_data" where
  "after_reply p b st \<equiv> trim_history (append_agent_utterance b (note_name_request p b st))"

section \<open>Sessions that the routes can reach\<close>

text \<open>
  The session starts as the module creates it; every request runs one route on it, with
  any behaviour of the services outside the program.
\<close>

inductive reachable :: "config \<Rightarrow> active_call_data \<Rightarrow> bool" for cfg :: config where
  start_up: "reachable cfg initial_call_data"
| index: "reachable cfg st \<Longrightarrow> reachable cfg (snd (index_route st))"
| initiate_call:
    "reachable cfg st \<Longrightarrow>
     reachable cfg (snd (initiate_call_route cfg generate_content speak req st))"
| process_audio:
    "reachable cfg st \<Longrightarrow>
     reachable cfg (snd (process_audio_route cfg generate_content speak audio_data st))"

text \<open>
  What the proofs carry from request to request: the flag is set only without a customer
  record, and a stored record has its name (its row was found by that name).
\<close>

definition session_inv :: "active_call_data \<Rightarrow> bool" where
  "session_inv st \<longleftrightarrow>
     (asked_for_name_in_last_turn st \<longrightarrow> customer_info st = None) \<and>
     (\<forall>d. customer_info st = Some d \<longrightarrow> Random_Name d \<noteq> None)"

text \<open>A response that reports an error: any response but the page and audio with status 200.\<close>

definition failed :: "response \<Rightarrow> bool" where
  "failed r =
     (case r of Page \<Rightarrow> False | SendFile a status \<Rightarrow> status \<noteq> 200 | Json m status \<Rightarrow> True
      | Aborted e \<Rightarrow> True)"

text \<open>The transcript a request leads to; empty when there is no audio or transcription raises.\<close>

definition request_transcript :: "stt_outcome option \<Rightarrow> string" where
  "request_transcript audio_data =
     (case audio_data of Some (SttReturns r) \<Rightarrow> transcript_of r | _ \<Rightarrow> [])"

text \<open>Neighbouring messages have different roles.\<close>

fun alternating :: "message list \<Rightarrow> bool" where
  "alternating (a # b # ms) = (msg_role a \<noteq> msg_role b \<and> alternating (b # ms))"
| "alternating ms = True"

section \<open>Example data\<close>

definition john_doe :: customer where
  "john_doe =
     \<lparr>Random_Name = Some ''John Doe'',
      columns = [(''Credit Score'', PyInt 700), (''Monthly Debt'', PyInt 500),
                 (''Current Loan Amount'', PyInt 10000)]\<rparr>"

definition john_doe_args :: format_args where
  "john_doe_args =
     \<lparr>customer_name = ''John Doe'', loan_amount = ''$10,000.00'', monthly_debt = ''$500.00'',
      half_monthly_debt = ''$250.00'', credit_score_text = ''700'',
      unknown_customer_placeholder = UNKNOWN_CUSTOMER_PLACEHOLDER\<rparr>"

text \<open>A row whose credit score is text: \<^verbatim>\<open>load_data\<close> leaves that column as it was read.\<close>

definition unscored_customer :: customer where
  "unscored_customer =
     \<lparr>Random_Name = Some ''Jane Roe'',
      columns = [(''Credit Score'', PyStr ''unknown''), (''Monthly Debt'', PyInt 500),
                 (''Current Loan Amount'', PyInt 10000)]\<rparr>"

definition garbled_debt_customer :: customer where
  "garbled_debt_customer =
     \<lparr>Random_Name = Some ''Jane Roe'', columns = [(''Monthly Debt'', PyStr ''abc'')]\<rparr>"

definition mock_config :: config where
  "mock_config = \<lparr>gemini_configured = False, customer_df = [john_doe]\<rparr>"

definition no_gemini :: gemini where
  "no_gemini system_prompt_text c = GeminiRaises"

definition clear_speaker :: speaker where
  "clear_speaker i t = Stream (map of_char t)"

definition silent_speaker :: speaker where
  "silent_speaker i t = SpeakRaises"

text \<open>A speech service whose first call of a request raises and whose later calls render.\<close>

definition faltering_speaker :: speaker where
  "faltering_speaker i t = (if i = 0 then SpeakRaises else Stream (map of_char t))"

definition awaiting_session :: active_call_data where
  "awaiting_session =
     \<lparr>customer_info = None, conversation_history = [Message model MOCK_ASK_NAME],
      asked_for_name_in_last_turn = True\<rparr>"

definition hello_audio :: "stt_outcome option" where
  "hello_audio = Some (SttReturns (Some [[''hello'']]))"

definition live_config :: config where
  "live_config = \<lparr>gemini_configured = True, customer_df = []\<rparr>"

definition asking_gemini :: gemini where
  "asking_gemini system_prompt_text c =
     GeminiReturns \<lparr>parts = [], response_text = Some ''May I ask, what is your name?'', feedback = None\<rparr>"

definition nine_turns :: active_call_data where
  "nine_turns =
     \<lparr>customer_info = None,
      conversation_history =
        Message model ''Hello'' # concat (replicate 9 [Message user ''Well'', Message model ''I see'']),
      asked_for_name_in_last_turn = False\<rparr>"

section \<open>Properties\<close>

subsection \<open>Substrings\<close>

lemma startswith_iff: "startswith h n \<longleftrightarrow> (\<exists>s. h = n @ s)"
  by (induction h n rule: startswith.induct) auto

lemma contains_iff: "contains n h \<longleftrightarrow> (\<exists>p s. h = p @ n @ s)"
proof (induction h)
  case Nil
  then show ?case by auto
next
  case (Cons a h)
  show ?case
  proof
    assume "contains n (a # h)"
    then consider "startswith (a # h) n" | "contains n h" by auto
    then show "\<exists>p s. a # h = p @ n @ s"
    proof cases
      case 1
      then obtain s where "a # h = n @ s" by (auto simp: startswith_iff)
      then have "a # h = [] @ n @ s" by simp
      then show ?thesis by blast
    next
      case 2
      then obtain p s where "h = p @ n @ s" using Cons.IH by blast
      then have "a # h = (a # p) @ n @ s" by simp
      then show ?thesis by blast
    qed
  next
    assume "\<exists>p s. a # h = p @ n @ s"
    then obtain p s where ps: "a # h = p @ n @ s" by blast
    show "contains n (a # h)"
    proof (cases p)
      case Nil
      then have "startswith (a # h) n" using ps by (auto simp: startswith_iff)
      then show ?thesis by simp
    next
      case (Cons b q)
      then have "h = q @ n @ s" using ps by simp
      then have "contains n h" using Cons.IH by blast
      then show ?thesis by simp
    qed
  qed
qed

lemma contains_str_format: "Arg f \<in> set t \<Longrightarrow> contains (f a) (str_format t a)"
proof -
  assume "Arg f \<in> set t"
  then obtain t1 t2 where "t = t1 @ Arg f # t2" by (meson split_list)
  then have "str_format t a = str_format t1 a @ f a @ str_format t2 a"
    by (simp add: str_format_def)
  then show ?thesis unfolding contains_iff by blast
qed

subsection \<open>The prompt composer\<close>

lemma and_then_Inr_iff: "and_then r f = Inr y \<longleftrightarrow> (\<exists>v. r = Inr v \<and> f v = Inr y)"
  by (cases r) (auto simp: and_then_def)

lemma known_customer_args_placeholder:
  "known_customer_args d = Inr a \<Longrightarrow> unknown_customer_placeholder a = UNKNOWN_CUSTOMER_PLACEHOLDER"
  unfolding known_customer_args_def Let_def and_then_Inr_iff by auto

lemma prompt_args_placeholder:
  "prompt_args c = Inr a \<Longrightarrow> unknown_customer_placeholder a = UNKNOWN_CUSTOMER_PLACEHOLDER"
  by (auto simp: prompt_args_def unknown_customer_args_def known_customer_args_placeholder
           split: option.splits if_splits)

lemma placeholder_in_prompt:
  "generate_system_prompt c = Inr p \<Longrightarrow> contains UNKNOWN_CUSTOMER_PLACEHOLDER p"
proof -
  assume "generate_system_prompt c = Inr p"
  then obtain a where a: "prompt_args c = Inr a" and p: "p = str_format LLM_SYSTEM_PROMPT_TEMPLATE a"
    by (auto simp: generate_system_prompt_def and_then_Inr_iff)
  have "Arg unknown_customer_placeholder \<in> set LLM_SYSTEM_PROMPT_TEMPLATE"
    by (simp add: LLM_SYSTEM_PROMPT_TEMPLATE_def)
  then have "contains (unknown_customer_placeholder a) p"
    unfolding p by (rule contains_str_format)
  then show ?thesis using prompt_args_placeholder[OF a] by simp
qed

lemma unknown_prompt:
  "generate_system_prompt None = Inr (str_format LLM_SYSTEM_PROMPT_TEMPLATE unknown_customer_args)"
  by (simp add: generate_system_prompt_def prompt_args_def and_then_def)

lemma john_doe_known_args: "known_customer_args john_doe = Inr john_doe_args"
  by (simp add: known_customer_args_def john_doe_def john_doe_args_def dict_get_def
        format_currency_def and_then_def round_half_even_def group_thousands_def two_digits_def
        dec_digits.simps str_int_def)

lemma john_doe_prompt:
  "generate_system_prompt (Some john_doe) = Inr (str_format LLM_SYSTEM_PROMPT_TEMPLATE john_doe_args)"
  by (simp add: generate_system_prompt_def prompt_args_def john_doe_known_args and_then_def)
     (simp add: dict_truthy_def john_doe_def)

text \<open>
  C9.  For the absent customer the composer returns a prompt, and the prompt contains the
  placeholder \<^verbatim>\<open>UNKNOWN_CUSTOMER_PLACEHOLDER\<close>, the constant that both routes look for in
  the prompt: the text \<^verbatim>\<open>the customer (name not yet identified)\<close>.
\<close>

theorem unknown_customer_prompt_has_placeholder:
  "\<exists>p. generate_system_prompt None = Inr p \<and>
        contains UNKNOWN_CUSTOMER_PLACEHOLDER p \<and>
        UNKNOWN_CUSTOMER_PLACEHOLDER = ''the customer (name not yet identified)''"
  using placeholder_in_prompt[OF unknown_prompt]
  by (simp add: unknown_prompt UNKNOWN_CUSTOMER_PLACEHOLDER_def)

theorem unknown_customer_prompt_has_placeholder_witness:
  "contains ''the customer (name not yet identified)''
     (str_format LLM_SYSTEM_PROMPT_TEMPLATE unknown_customer_args)"
  using unknown_customer_prompt_has_placeholder by (auto simp: unknown_prompt)

text \<open>
  C10.  Every prompt the composer returns contains the placeholder, for a resolved customer
  as for an absent one, because the template has the field
  \<^verbatim>\<open>{unknown_customer_placeholder}\<close> in its instructions.  So the test
  \<^verbatim>\<open>UNKNOWN_CUSTOMER_PLACEHOLDER in system_prompt\<close> of the routes is true of every composed
  prompt, and the guard of both routes holds exactly when \<^verbatim>\<open>customer_info\<close> is false.
\<close>

theorem every_prompt_has_placeholder:
  assumes "generate_system_prompt c = Inr p"
  shows "contains UNKNOWN_CUSTOMER_PLACEHOLDER p \<and>
         ((\<not> info_truthy (customer_info st) \<and> contains UNKNOWN_CUSTOMER_PLACEHOLDER p) =
          (\<not> info_truthy (customer_info st))) \<and>
         note_name_request p b st =
           (if info_truthy (customer_info st) then st
            else if contains ''name'' (lower b) \<and>
                    (contains ''what is your'' (lower b) \<or> contains ''could you tell me'' (lower b))
                 then st\<lparr>asked_for_name_in_last_turn := True\<rparr> else st)"
  using placeholder_in_prompt[OF assms] by (simp add: note_name_request_def)

theorem every_prompt_has_placeholder_witness:
  "generate_system_prompt (Some john_doe) = Inr (str_format LLM_SYSTEM_PROMPT_TEMPLATE john_doe_args) \<and>
   info_truthy (Some john_doe) \<and>
   contains UNKNOWN_CUSTOMER_PLACEHOLDER (str_format LLM_SYSTEM_PROMPT_TEMPLATE john_doe_args)"
proof -
  have "info_truthy (Some john_doe)"
    by (simp add: info_truthy_def dict_truthy_def john_doe_def)
  then show ?thesis
    using every_prompt_has_placeholder[OF john_doe_prompt, THEN conjunct1] john_doe_prompt
    by simp
qed

text \<open>
  C3.  The specification has the composer return a prompt for every customer record and
  never raise, a field that is no number being rendered as text like \<^verbatim>\<open>N/A\<close>.
  \<^verbatim>\<open>format_currency\<close> does so.  But the composer raises on a record whose credit score is
  text that is no number, and on one whose monthly debt is such text: \<^verbatim>\<open>int(score_val)\<close>
  and \<^verbatim>\<open>float(emi_val)\<close> raise \<^verbatim>\<open>ValueError\<close> outside the handler of
  \<^verbatim>\<open>format_currency\<close>.
\<close>

theorem generate_system_prompt_raises:
  "generate_system_prompt (Some unscored_customer) = Inl ValueError \<and>
   generate_system_prompt (Some garbled_debt_customer) = Inl ValueError"
  by (simp add: generate_system_prompt_def prompt_args_def dict_truthy_def known_customer_args_def
        unscored_customer_def garbled_debt_customer_def dict_get_def format_currency_def and_then_def
        round_half_even_def group_thousands_def two_digits_def dec_digits.simps
        int_of_str_def float_of_str_def number_of_str_def strip_def strip_chars_def whitespace_def number_whitespace_def is_digit_def
        lower_def lower_char_def)

subsection \<open>A known customer\<close>

lemma find_first_match: "\<forall>x\<in>set pre. \<not> P x \<Longrightarrow> P y \<Longrightarrow> find P (pre @ y # post) = Some y"
  by (induction pre) auto

lemma john_doe_matches: "name_matches ''john doe'' john_doe"
  by (simp add: name_matches_def john_doe_def strip_def strip_chars_def whitespace_def number_whitespace_def lower_def lower_char_def)

lemma john_doe_truthy: "info_truthy (Some john_doe)"
  by (simp add: info_truthy_def dict_truthy_def john_doe_def)

lemma john_doe_call:
  assumes "customer_df cfg = pre @ john_doe # post"
    and "\<forall>row\<in>set pre. \<not> name_matches ''john doe'' row"
  shows "customer_info (snd (initiate_call_route cfg g s (CustomerName (Some ''john doe'')) st)) = Some john_doe \<and>
         \<not> asked_for_name_in_last_turn (snd (initiate_call_route cfg g s (CustomerName (Some ''john doe'')) st))"
proof -
  have n: "strip ''john doe'' = ''john doe''"
    by (simp add: strip_def strip_chars_def whitespace_def number_whitespace_def)
  have f: "get_customer_details (customer_df cfg) ''john doe'' = Some john_doe"
    unfolding get_customer_details_def assms(1)
    by (rule find_first_match[of pre "name_matches ''john doe''" john_doe post,
              OF assms(2) john_doe_matches])
  have b: "\<exists>b. call_gemini_model cfg g
             (st\<lparr>conversation_history := [], customer_info := Some john_doe,
                  asked_for_name_in_last_turn := False\<rparr>) p [] = Inr b" for p
    using john_doe_truthy by (simp add: call_gemini_model_def) (simp add: john_doe_def)
  show ?thesis
    using b john_doe_truthy
    by (auto simp: initiate_call_route_def n f john_doe_prompt Let_def split: sum.splits)
qed

lemma john_doe_prompt_texts:
  "contains ''$500.00'' (str_format LLM_SYSTEM_PROMPT_TEMPLATE john_doe_args) \<and>
   contains ''$250.00'' (str_format LLM_SYSTEM_PROMPT_TEMPLATE john_doe_args) \<and>
   contains ''$10,000.00'' (str_format LLM_SYSTEM_PROMPT_TEMPLATE john_doe_args) \<and>
   contains ''700'' (str_format LLM_SYSTEM_PROMPT_TEMPLATE john_doe_args)"
proof -
  have m: "Arg monthly_debt \<in> set LLM_SYSTEM_PROMPT_TEMPLATE"
    and h: "Arg half_monthly_debt \<in> set LLM_SYSTEM_PROMPT_TEMPLATE"
    and l: "Arg loan_amount \<in> set LLM_SYSTEM_PROMPT_TEMPLATE"
    and c: "Arg credit_score_text \<in> set LLM_SYSTEM_PROMPT_TEMPLATE"
    by (simp_all add: LLM_SYSTEM_PROMPT_TEMPLATE_def)
  show ?thesis
    using contains_str_format[OF m, of john_doe_args] contains_str_format[OF h, of john_doe_args]
      contains_str_format[OF l, of john_doe_args] contains_str_format[OF c, of john_doe_args]
    by (simp add: john_doe_args_def)
qed

lemma format_currency_int:
  "\<bar>n\<bar> \<le> 2 ^ 53 \<Longrightarrow> format_currency (PyInt n) = Inr (''$'' @ format_2f (Finite (of_int n)))"
  by (simp add: format_currency_def)

lemma format_currency_float: "format_currency (PyFloat f) = Inr (''$'' @ format_2f f)"
  by (simp add: format_currency_def)

lemma known_customer_args_fields:
  assumes "known_customer_args d = Inr a"
  shows "format_currency (dict_get d ''Monthly Debt'' (PyInt 0)) = Inr (monthly_debt a) \<and>
         (\<exists>hv. (if truthy (dict_get d ''Monthly Debt'' (PyInt 0))
                 then and_then (py_float (dict_get d ''Monthly Debt'' (PyInt 0)))
                        (\<lambda>f. Inr (PyFloat (half f)))
                 else Inr (PyInt 0)) = Inr hv \<and>
               format_currency hv = Inr (half_monthly_debt a))"
  using assms unfolding known_customer_args_def Let_def and_then_Inr_iff by auto

lemma half_value_int:
  assumes "\<bar>n\<bar> \<le> 2 ^ 53"
    and "(if truthy (PyInt n) then and_then (py_float (PyInt n)) (\<lambda>f. Inr (PyFloat (half f)))
          else Inr (PyInt 0)) = Inr hv"
  shows "format_currency hv = Inr (''$'' @ format_2f (Finite (of_int n / 2)))"
proof (cases "n = 0")
  case True
  then have "hv = PyInt 0" using assms(2) by simp
  then show ?thesis using True format_currency_int[of 0] by simp
next
  case False
  have "hv = PyFloat (Finite (of_int n / 2))"
    using assms(1,2) False by (auto simp: and_then_def)
  then show ?thesis by (simp only: format_currency_float)
qed

lemma half_value_float:
  assumes "(if truthy (PyFloat (Finite q))
            then and_then (py_float (PyFloat (Finite q))) (\<lambda>f. Inr (PyFloat (half f)))
            else Inr (PyInt 0)) = Inr hv"
  shows "format_currency hv = Inr (''$'' @ format_2f (Finite (q / 2)))"
proof (cases "q = 0")
  case True
  then have "hv = PyInt 0" using assms by simp
  then show ?thesis using True format_currency_int[of 0] by simp
next
  case False
  then have "hv = PyFloat (Finite (q / 2))"
    using assms by (auto simp: and_then_def)
  then show ?thesis by (simp only: format_currency_float)
qed

lemma known_args_int:
  assumes "known_customer_args d = Inr a"
    and "dict_get d ''Monthly Debt'' (PyInt 0) = PyInt n" and "\<bar>n\<bar> \<le> 2 ^ 53"
  shows "monthly_debt a = ''$'' @ format_2f (Finite (of_int n)) \<and>
         half_monthly_debt a = ''$'' @ format_2f (Finite (of_int n / 2))"
proof -
  from known_customer_args_fields[OF assms(1)] obtain hv where
    m: "format_currency (PyInt n) = Inr (monthly_debt a)" and
    h: "(if truthy (PyInt n) then and_then (py_float (PyInt n)) (\<lambda>f. Inr (PyFloat (half f)))
         else Inr (PyInt 0)) = Inr hv" and
    f: "format_currency hv = Inr (half_monthly_debt a)"
    unfolding assms(2) by blast
  have "Inr (monthly_debt a) = (Inr (''$'' @ format_2f (Finite (of_int n))) :: exn + string)"
    using m format_currency_int[OF assms(3)] by (simp only:)
  moreover have "Inr (half_monthly_debt a) = (Inr (''$'' @ format_2f (Finite (of_int n / 2))) :: exn + string)"
    using f half_value_int[OF assms(3) h] by (simp only:)
  ultimately show ?thesis by (simp only: sum.inject simp_thms)
qed

lemma known_args_float:
  assumes "known_customer_args d = Inr a"
    and "dict_get d ''Monthly Debt'' (PyInt 0) = PyFloat (Finite q)"
  shows "monthly_debt a = ''$'' @ format_2f (Finite q) \<and>
         half_monthly_debt a = ''$'' @ format_2f (Finite (q / 2))"
proof -
  from known_customer_args_fields[OF assms(1)] obtain hv where
    m: "format_currency (PyFloat (Finite q)) = Inr (monthly_debt a)" and
    h: "(if truthy (PyFloat (Finite q))
         then and_then (py_float (PyFloat (Finite q))) (\<lambda>f. Inr (PyFloat (half f)))
         else Inr (PyInt 0)) = Inr hv" and
    f: "format_currency hv = Inr (half_monthly_debt a)"
    unfolding assms(2) by blast
  have "Inr (monthly_debt a) = (Inr (''$'' @ format_2f (Finite q)) :: exn + string)"
    using m format_currency_float[of "Finite q"] by (simp only:)
  moreover have "Inr (half_monthly_debt a) = (Inr (''$'' @ format_2f (Finite (q / 2))) :: exn + string)"
    using f half_value_float[OF h] by (simp only:)
  ultimately show ?thesis by (simp only: sum.inject simp_thms)
qed

text \<open>
  C7.  With the record of John Doe (credit score 700, monthly debt 500, loan amount 10000)
  as the first row of the directory that matches the name, \<^verbatim>\<open>/initiate_call\<close> with the
  name \<^verbatim>\<open>john doe\<close> stores that record, leaves the flag unset, and the prompt composed
  for it contains \<^verbatim>\<open>$500.00\<close>, \<^verbatim>\<open>$250.00\<close>, \<^verbatim>\<open>$10,000.00\<close> and \<^verbatim>\<open>700\<close>.  And for
  every customer record whose monthly debt is a number (an integer that a double holds
  exactly, or a finite float), the half payment in the prompt is half that number in the
  currency format of the monthly payment.
\<close>

theorem known_customer_formatting:
  "(customer_df cfg = pre @ john_doe # post \<and> (\<forall>row\<in>set pre. \<not> name_matches ''john doe'' row) \<longrightarrow>
      customer_info (snd (initiate_call_route cfg g s (CustomerName (Some ''john doe'')) st)) = Some john_doe \<and>
      \<not> asked_for_name_in_last_turn (snd (initiate_call_route cfg g s (CustomerName (Some ''john doe'')) st)) \<and>
      (\<exists>prompt. generate_system_prompt (Some john_doe) = Inr prompt \<and>
          contains ''$500.00'' prompt \<and> contains ''$250.00'' prompt \<and>
          contains ''$10,000.00'' prompt \<and> contains ''700'' prompt)) \<and>
   (dict_truthy d \<and> generate_system_prompt (Some d) = Inr p \<longrightarrow>
      (\<exists>a. p = str_format LLM_SYSTEM_PROMPT_TEMPLATE a \<and>
           (\<forall>n. dict_get d ''Monthly Debt'' (PyInt 0) = PyInt n \<and> \<bar>n\<bar> \<le> 2 ^ 53 \<longrightarrow>
                monthly_debt a = ''$'' @ format_2f (Finite (of_int n)) \<and>
                half_monthly_debt a = ''$'' @ format_2f (Finite (of_int n / 2))) \<and>
           (\<forall>q. dict_get d ''Monthly Debt'' (PyInt 0) = PyFloat (Finite q) \<longrightarrow>
                monthly_debt a = ''$'' @ format_2f (Finite q) \<and>
                half_monthly_debt a = ''$'' @ format_2f (Finite (q / 2)))))"
proof (intro conjI impI)
  assume "customer_df cfg = pre @ john_doe # post \<and> (\<forall>row\<in>set pre. \<not> name_matches ''john doe'' row)"
  then have c: "customer_info (snd (initiate_call_route cfg g s (CustomerName (Some ''john doe'')) st)) = Some john_doe \<and>
         \<not> asked_for_name_in_last_turn (snd (initiate_call_route cfg g s (CustomerName (Some ''john doe'')) st))"
    using john_doe_call[of cfg pre post g s st] by blast
  from c show "customer_info (snd (initiate_call_route cfg g s (CustomerName (Some ''john doe'')) st)) = Some john_doe"
    by blast
  from c show "\<not> asked_for_name_in_last_turn (snd (initiate_call_route cfg g s (CustomerName (Some ''john doe'')) st))"
    by blast
  show "\<exists>prompt. generate_system_prompt (Some john_doe) = Inr prompt \<and>
          contains ''$500.00'' prompt \<and> contains ''$250.00'' prompt \<and>
          contains ''$10,000.00'' prompt \<and> contains ''700'' prompt"
    using john_doe_prompt john_doe_prompt_texts by blast
next
  assume "dict_truthy d \<and> generate_system_prompt (Some d) = Inr p"
  then obtain a where a: "known_customer_args d = Inr a" and p: "p = str_format LLM_SYSTEM_PROMPT_TEMPLATE a"
    by (auto simp: generate_system_prompt_def prompt_args_def and_then_Inr_iff)
  show "\<exists>a. p = str_format LLM_SYSTEM_PROMPT_TEMPLATE a \<and>
           (\<forall>n. dict_get d ''Monthly Debt'' (PyInt 0) = PyInt n \<and> \<bar>n\<bar> \<le> 2 ^ 53 \<longrightarrow>
                monthly_debt a = ''$'' @ format_2f (Finite (of_int n)) \<and>
                half_monthly_debt a = ''$'' @ format_2f (Finite (of_int n / 2))) \<and>
           (\<forall>q. dict_get d ''Monthly Debt'' (PyInt 0) = PyFloat (Finite q) \<longrightarrow>
                monthly_debt a = ''$'' @ format_2f (Finite q) \<and>
                half_monthly_debt a = ''$'' @ format_2f (Finite (q / 2)))"
    using p known_args_int[OF a] known_args_float[OF a] by blast
qed

theorem known_customer_formatting_witness:
  "customer_df mock_config = [] @ john_doe # [] \<and>
   customer_info (snd (initiate_call_route mock_config no_gemini clear_speaker
                         (CustomerName (Some ''john doe'')) initial_call_data)) = Some john_doe \<and>
   dict_truthy john_doe \<and>
   generate_system_prompt (Some john_doe) = Inr (str_format LLM_SYSTEM_PROMPT_TEMPLATE john_doe_args) \<and>
   dict_get john_doe ''Monthly Debt'' (PyInt 0) = PyInt 500 \<and>
   monthly_debt john_doe_args = ''$'' @ format_2f (Finite 500) \<and>
   half_monthly_debt john_doe_args = ''$'' @ format_2f (Finite 250) \<and>
   half_monthly_debt john_doe_args = ''$250.00''"
proof -
  have d: "customer_df mock_config = [] @ john_doe # []" by (simp add: mock_config_def)
  have e: "\<forall>row\<in>set []. \<not> name_matches ''john doe'' row" by simp
  have t: "dict_truthy john_doe" by (simp add: dict_truthy_def john_doe_def)
  have g: "dict_get john_doe ''Monthly Debt'' (PyInt 0) = PyInt 500"
    by (simp add: dict_get_def john_doe_def)
  have f: "''$'' @ format_2f (Finite 500) = ''$500.00''" "''$'' @ format_2f (Finite 250) = ''$250.00''"
    by (simp_all add: round_half_even_def group_thousands_def two_digits_def dec_digits.simps)
  have m: "monthly_debt john_doe_args = ''$500.00''" "half_monthly_debt john_doe_args = ''$250.00''"
    by (simp_all add: john_doe_args_def)
  have c: "customer_info (snd (initiate_call_route mock_config no_gemini clear_speaker
                         (CustomerName (Some ''john doe'')) initial_call_data)) = Some john_doe"
    using known_customer_formatting[of mock_config "[]" "[]" no_gemini clear_speaker initial_call_data] d e by blast
  show ?thesis using d c t g john_doe_prompt f m by simp
qed

subsection \<open>The session invariant\<close>

lemma get_customer_details_named:
  "get_customer_details df n = Some d \<Longrightarrow> Random_Name d \<noteq> None"
  by (auto simp: get_customer_details_def name_matches_def find_Some_iff split: option.splits)

lemma info_truthy_None [simp]: "\<not> info_truthy None"
  by (simp add: info_truthy_def)

lemma inv_absent:
  "session_inv st \<Longrightarrow> \<not> info_truthy (customer_info st) \<Longrightarrow> customer_info st = None"
  by (cases "customer_info st") (auto simp: session_inv_def info_truthy_def dict_truthy_def)

lemma inv_initial: "session_inv initial_call_data"
  by (simp add: session_inv_def initial_call_data_def)

lemma inv_index: "session_inv (snd (index_route st))"
  by (simp add: session_inv_def index_route_def)

lemma inv_initiate_call:
  "session_inv st \<Longrightarrow> session_inv (snd (initiate_call_route cfg g s req st))"
  by (auto simp: session_inv_def initiate_call_route_def Let_def
           dest: get_customer_details_named
           split: call_request.splits sum.splits if_splits)

lemma inv_append_customer: "session_inv st \<Longrightarrow> session_inv (append_customer_utterance t st)"
  by (simp add: session_inv_def append_customer_utterance_def)

lemma inv_resolve_identity: "session_inv st \<Longrightarrow> session_inv (resolve_identity cfg t st)"
  by (auto simp: session_inv_def resolve_identity_def Let_def dest: get_customer_details_named)

lemma inv_note_name_request: "session_inv st \<Longrightarrow> session_inv (note_name_request p b st)"
  using inv_absent[of st] by (auto simp: session_inv_def note_name_request_def)

lemma inv_append_agent: "session_inv st \<Longrightarrow> session_inv (append_agent_utterance b st)"
  by (simp add: session_inv_def append_agent_utterance_def)

lemma inv_trim_history: "session_inv st \<Longrightarrow> session_inv (trim_history st)"
  by (simp add: session_inv_def trim_history_def)

lemma process_audio_route_states:
  "snd (process_audio_route cfg g s audio st) = st \<or>
   (\<exists>t. snd (process_audio_route cfg g s audio st) =
          resolve_identity cfg t (append_customer_utterance t st)) \<or>
   (\<exists>t p b. snd (process_audio_route cfg g s audio st) =
          trim_history (append_agent_utterance b (note_name_request p b
            (resolve_identity cfg t (append_customer_utterance t st)))))"
  unfolding process_audio_route_def Let_def
  by (auto split: option.splits stt_outcome.splits sum.splits)

lemma inv_process_audio:
  "session_inv st \<Longrightarrow> session_inv (snd (process_audio_route cfg g s audio st))"
  using process_audio_route_states[of cfg g s audio st]
  by (auto intro!: inv_trim_history inv_append_agent inv_note_name_request inv_resolve_identity
        inv_append_customer)

lemma reachable_inv: "reachable cfg st \<Longrightarrow> session_inv st"
  by (induction rule: reachable.induct)
     (simp_all add: inv_initial inv_index inv_initiate_call inv_process_audio)

lemma call_without_name:
  "initiate_call_route mock_config no_gemini clear_speaker (CustomerName None) initial_call_data =
     (SendFile (map of_char MOCK_ASK_NAME) 200, awaiting_session)"
  using placeholder_in_prompt[OF unknown_prompt]
  by (simp add: initiate_call_route_def strip_def strip_chars_def initial_call_data_def unknown_prompt
        call_gemini_model_def mock_config_def text_to_speech_def clear_speaker_def
        awaiting_session_def MOCK_ASK_NAME_def)

text \<open>
  C1.  In every session that the routes \<^verbatim>\<open>/\<close>, \<^verbatim>\<open>/initiate_call\<close> and
  \<^verbatim>\<open>/process_audio\<close> can reach, the flag \<^verbatim>\<open>asked_for_name_in_last_turn\<close> is set only
  while \<^verbatim>\<open>customer_info\<close> is \<^verbatim>\<open>None\<close>; with a customer record in the session the flag
  is false.
\<close>

theorem flag_only_without_customer:
  assumes "reachable cfg st"
  shows "(asked_for_name_in_last_turn st \<longrightarrow> customer_info st = None) \<and>
         (customer_info st \<noteq> None \<longrightarrow> \<not> asked_for_name_in_last_turn st)"
  using reachable_inv[OF assms] by (auto simp: session_inv_def)

theorem flag_only_without_customer_witness:
  "reachable mock_config awaiting_session \<and>
   asked_for_name_in_last_turn awaiting_session \<and> customer_info awaiting_session = None"
proof -
  have "reachable mock_config
          (snd (initiate_call_route mock_config no_gemini clear_speaker (CustomerName None)
                  initial_call_data))"
    by (rule reachable.initiate_call) (rule reachable.start_up)
  then have r: "reachable mock_config awaiting_session"
    by (simp add: call_without_name)
  have "asked_for_name_in_last_turn awaiting_session"
    by (simp add: awaiting_session_def)
  then show ?thesis using r flag_only_without_customer[OF r] by simp
qed

subsection \<open>The mock replies\<close>

text \<open>
  C6.  Without a configured Gemini, \<^verbatim>\<open>call_gemini_model\<close> answers from the session alone,
  whatever the prompt and the history: in a session that awaits a name (where no customer
  is known) the reply is the mock \<^verbatim>\<open>Thank you. My name is Mock User. What is this call
  regarding?\<close>, every time; otherwise it is a greeting, the request for the name when no
  customer is known and the greeting by name when one is.
\<close>

theorem mock_reply_by_identity_state:
  assumes "\<not> gemini_configured cfg"
    and "asked_for_name_in_last_turn st \<longrightarrow> customer_info st = None"
    and "\<forall>d. customer_info st = Some d \<longrightarrow> Random_Name d \<noteq> None"
  shows "(asked_for_name_in_last_turn st \<longrightarrow> call_gemini_model cfg g st p h = Inr MOCK_NAME_GIVEN) \<and>
         (\<not> asked_for_name_in_last_turn st \<and> customer_info st = None \<longrightarrow>
            call_gemini_model cfg g st p h = Inr MOCK_ASK_NAME) \<and>
         (\<forall>d. customer_info st = Some d \<longrightarrow>
              (\<exists>n. Random_Name d = Some n \<and> call_gemini_model cfg g st p h = Inr (mock_greeting n))) \<and>
         MOCK_NAME_GIVEN = ''Thank you. My name is Mock User. What is this call regarding?''"
  using assms
  by (auto simp: call_gemini_model_def info_truthy_def dict_truthy_def MOCK_NAME_GIVEN_def)

theorem mock_reply_by_identity_state_witness:
  "\<not> gemini_configured mock_config \<and> asked_for_name_in_last_turn awaiting_session \<and>
   customer_info awaiting_session = None \<and>
   call_gemini_model mock_config no_gemini awaiting_session [] [] =
     Inr ''Thank you. My name is Mock User. What is this call regarding?''"
proof -
  have c: "\<not> gemini_configured mock_config" by (simp add: mock_config_def)
  have a: "asked_for_name_in_last_turn awaiting_session" "customer_info awaiting_session = None"
    by (simp_all add: awaiting_session_def)
  show ?thesis
    using c a mock_reply_by_identity_state[of mock_config awaiting_session no_gemini "[]" "[]"] by simp
qed

text \<open>
  \<^verbatim>\<open>/process_audio\<close> clears the flag before it calls the model, so the model is called
  there with the flag unset.
\<close>

lemma flag_cleared_before_reply:
  "session_inv st \<Longrightarrow> \<not> asked_for_name_in_last_turn (after_hearing cfg t st)"
  by (auto simp: session_inv_def resolve_identity_def append_customer_utterance_def Let_def)

subsection \<open>One turn\<close>

lemma failed_error_response [simp]: "failed (error_response s)"
  by (simp add: failed_def error_response_def split: sum.splits)

lemma turn_empty:
  "request_transcript audio = [] \<Longrightarrow> snd (process_audio_route cfg g s audio st) = st"
  by (auto simp: request_transcript_def process_audio_route_def
           split: option.splits stt_outcome.splits sum.splits)

lemma turn_compose_fails:
  "request_transcript audio = t \<Longrightarrow> t \<noteq> [] \<Longrightarrow>
   generate_system_prompt (customer_info (after_hearing cfg t st)) = Inl e \<Longrightarrow>
   process_audio_route cfg g s audio st = (error_response s, after_hearing cfg t st)"
  by (auto simp: request_transcript_def process_audio_route_def Let_def
           split: option.splits stt_outcome.splits)

lemma turn_engine_fails:
  "request_transcript audio = t \<Longrightarrow> t \<noteq> [] \<Longrightarrow>
   generate_system_prompt (customer_info (after_hearing cfg t st)) = Inr p \<Longrightarrow>
   call_gemini_model cfg g (after_hearing cfg t st) p
     (conversation_history (after_hearing cfg t st)) = Inl e \<Longrightarrow>
   process_audio_route cfg g s audio st = (error_response s, after_hearing cfg t st)"
  by (auto simp: request_transcript_def process_audio_route_def Let_def
           split: option.splits stt_outcome.splits)

lemma turn_replied:
  "request_transcript audio = t \<Longrightarrow> t \<noteq> [] \<Longrightarrow>
   generate_system_prompt (customer_info (after_hearing cfg t st)) = Inr p \<Longrightarrow>
   call_gemini_model cfg g (after_hearing cfg t st) p
     (conversation_history (after_hearing cfg t st)) = Inr b \<Longrightarrow>
   process_audio_route cfg g s audio st =
     (case text_to_speech s 0 b of
        Inr a \<Rightarrow> (SendFile a 200, after_reply p b (after_hearing cfg t st))
      | Inl e \<Rightarrow> (error_response s, after_reply p b (after_hearing cfg t st)))"
  by (auto simp: request_transcript_def process_audio_route_def Let_def
           split: option.splits stt_outcome.splits)

lemma history_after_hearing:
  "conversation_history (after_hearing cfg t st) = conversation_history st @ [Message user t]"
  by (simp add: resolve_identity_def append_customer_utterance_def Let_def)

lemma history_after_reply:
  "conversation_history (after_reply p b st) =
     drop (length (conversation_history st @ [Message model b]) - 20)
       (conversation_history st @ [Message model b])"
  by (simp add: trim_history_def append_agent_utterance_def note_name_request_def
        MAX_HISTORY_TURNS_def)

lemma info_after_reply: "customer_info (after_reply p b st) = customer_info st"
  by (simp add: trim_history_def append_agent_utterance_def note_name_request_def)

lemma flag_after_reply:
  "asked_for_name_in_last_turn (after_reply p b st) =
     asked_for_name_in_last_turn (note_name_request p b st)"
  by (simp add: trim_history_def append_agent_utterance_def)

lemma alternating_tl: "alternating (a # ms) \<Longrightarrow> alternating ms"
  by (cases ms) auto

lemma alternating_drop: "alternating ms \<Longrightarrow> alternating (drop n ms)"
proof (induction n arbitrary: ms)
  case 0
  then show ?case by simp
next
  case (Suc n)
  then show ?case by (cases ms) (auto dest: alternating_tl)
qed

lemma turn_completed:
  assumes "process_audio_route cfg g s audio st = (SendFile a 200, st')"
    and t: "request_transcript audio \<noteq> []"
  shows "\<exists>p b. generate_system_prompt (customer_info (after_hearing cfg (request_transcript audio) st)) = Inr p \<and>
               st' = after_reply p b (after_hearing cfg (request_transcript audio) st)"
proof -
  let ?st1 = "after_hearing cfg (request_transcript audio) st"
  have nf: "\<not> failed (fst (process_audio_route cfg g s audio st))"
    by (simp add: assms(1) failed_def)
  show ?thesis
  proof (cases "generate_system_prompt (customer_info ?st1)")
    case (Inl e)
    then show ?thesis using turn_compose_fails[OF refl t Inl, of g s] nf by simp
  next
    case p: (Inr p)
    show ?thesis
    proof (cases "call_gemini_model cfg g ?st1 p (conversation_history ?st1)")
      case (Inl e)
      then show ?thesis using turn_engine_fails[OF refl t p Inl, of s] nf by simp
    next
      case b: (Inr b)
      show ?thesis
        using assms(1) p turn_replied[OF refl t p b, of s]
        by (cases "text_to_speech s 0 b") auto
    qed
  qed
qed

lemma flag_after_hearing:
  "customer_info (after_hearing cfg t st) = None \<Longrightarrow>
   \<not> asked_for_name_in_last_turn (after_hearing cfg t st)"
  by (auto simp: resolve_identity_def append_customer_utterance_def Let_def split: if_splits)

lemma mock_reply_without_customer:
  "customer_info st = None \<Longrightarrow> \<exists>b. call_gemini_model cfg g st p h = Inr b"
  by (simp add: call_gemini_model_def)

lemma mock_ask_name_is_no_request:
  "\<not> contains ''what is your'' (lower MOCK_ASK_NAME) \<and>
   \<not> contains ''could you tell me'' (lower MOCK_ASK_NAME)"
  by (simp add: MOCK_ASK_NAME_def lower_def lower_char_def)

lemma mock_turn_without_customer:
  assumes "\<not> gemini_configured cfg" and "customer_info st = None"
    and "\<not> asked_for_name_in_last_turn st" and "request_transcript audio = t" and "t \<noteq> []"
  shows "process_audio_route cfg g s audio st =
           (case text_to_speech s 0 MOCK_ASK_NAME of
              Inr a \<Rightarrow> (SendFile a 200, after_reply (str_format LLM_SYSTEM_PROMPT_TEMPLATE unknown_customer_args) MOCK_ASK_NAME (after_hearing cfg t st))
            | Inl e \<Rightarrow> (error_response s, after_reply (str_format LLM_SYSTEM_PROMPT_TEMPLATE unknown_customer_args) MOCK_ASK_NAME (after_hearing cfg t st)))"
proof -
  have i: "customer_info (after_hearing cfg t st) = None"
    using assms(2,3) by (simp add: resolve_identity_def append_customer_utterance_def)
  have p: "generate_system_prompt (customer_info (after_hearing cfg t st)) =
             Inr (str_format LLM_SYSTEM_PROMPT_TEMPLATE unknown_customer_args)"
    unfolding i by (rule unknown_prompt)
  have b: "call_gemini_model cfg g (after_hearing cfg t st)
             (str_format LLM_SYSTEM_PROMPT_TEMPLATE unknown_customer_args)
             (conversation_history (after_hearing cfg t st)) = Inr MOCK_ASK_NAME"
    using assms(1,2,3)
    by (simp add: call_gemini_model_def resolve_identity_def append_customer_utterance_def)
  show ?thesis by (rule turn_replied[OF assms(4,5) p b])
qed

lemma after_mock_reply:
  "customer_info st = None \<Longrightarrow>
   after_reply p MOCK_ASK_NAME st =
     st\<lparr>conversation_history :=
          drop (length (conversation_history st @ [Message model MOCK_ASK_NAME]) - 20)
            (conversation_history st @ [Message model MOCK_ASK_NAME])\<rparr>"
  using mock_ask_name_is_no_request
  by (simp add: note_name_request_def append_agent_utterance_def trim_history_def
        MAX_HISTORY_TURNS_def)

lemma speak_silent: "text_to_speech silent_speaker i t = Inl ExternalError"
  by (simp add: text_to_speech_def silent_speaker_def)

lemma speak_clear: "t \<noteq> [] \<Longrightarrow> text_to_speech clear_speaker i t = Inr (map of_char t)"
  by (simp add: text_to_speech_def clear_speaker_def)

lemma error_response_json: "error_response s = Json ''Critical System Error'' 500"
  by (simp add: error_response_def split: sum.splits)

lemma hello_transcript: "request_transcript hello_audio = ''hello''"
  by (simp add: request_transcript_def hello_audio_def)

lemma hello_turn_silent:
  "process_audio_route mock_config no_gemini silent_speaker hello_audio initial_call_data =
     (Json ''Critical System Error'' 500,
      \<lparr>customer_info = None,
       conversation_history = [Message user ''hello'', Message model MOCK_ASK_NAME],
       asked_for_name_in_last_turn = False\<rparr>)"
proof -
  have t: "request_transcript hello_audio = ''hello''"
    by (simp add: request_transcript_def hello_audio_def)
  have c: "\<not> gemini_configured mock_config" by (simp add: mock_config_def)
  have h: "after_hearing mock_config ''hello'' initial_call_data =
             \<lparr>customer_info = None, conversation_history = [Message user ''hello''],
              asked_for_name_in_last_turn = False\<rparr>"
    by (simp add: resolve_identity_def append_customer_utterance_def initial_call_data_def)
  show ?thesis
    using mock_turn_without_customer[OF c _ _ t, of initial_call_data no_gemini silent_speaker]
    by (simp add: speak_silent error_response_json h after_mock_reply)
       (simp add: initial_call_data_def)
qed

text \<open>
  C8.  The specification has every turn with an empty transcript return the fixed re-prompt
  and leave the session as it was.  The session is left as it was, whatever the speech
  service does.  The text given to speech synthesis is the fixed
  \<^verbatim>\<open>I'm sorry, I didn't catch that. Could you please repeat?\<close>, and its audio is the
  response when the speech service renders it.  When it does not, \<^verbatim>\<open>text_to_speech\<close>
  speaks its fallback sentence instead, and the response is that audio with status 200;
  when the fallback cannot be spoken either, the response is the JSON error with status 500.
\<close>

theorem empty_transcript_keeps_session:
  assumes "transcript_of r = []"
  shows "snd (process_audio_route cfg g s (Some (SttReturns r)) st) = st \<and>
         (\<forall>a. s 0 ''I'm sorry, I didn't catch that. Could you please repeat?'' = Stream a \<and> a \<noteq> [] \<longrightarrow>
              fst (process_audio_route cfg g s (Some (SttReturns r)) st) = SendFile a 200) \<and>
         (\<forall>fb. (\<forall>a. s 0 ''I'm sorry, I didn't catch that. Could you please repeat?'' = Stream a \<longrightarrow> a = []) \<and>
               s 1 ''I'm having trouble speaking at the moment. Please try again later.'' = Stream fb \<and>
               fb \<noteq> [] \<longrightarrow>
              fst (process_audio_route cfg g s (Some (SttReturns r)) st) = SendFile fb 200) \<and>
         ((\<forall>a. s 0 ''I'm sorry, I didn't catch that. Could you please repeat?'' = Stream a \<longrightarrow> a = []) \<and>
          (\<forall>fb. s 1 ''I'm having trouble speaking at the moment. Please try again later.'' = Stream fb \<longrightarrow>
                fb = []) \<longrightarrow>
            fst (process_audio_route cfg g s (Some (SttReturns r)) st) =
              Json ''Critical System Error'' 500)"
proof -
  let ?re = "''I'm sorry, I didn't catch that. Could you please repeat?''"
  let ?fb = "''I'm having trouble speaking at the moment. Please try again later.''"
  have r: "process_audio_route cfg g s (Some (SttReturns r)) st =
             (case text_to_speech s 0 ?re of
                Inr audio_bytes \<Rightarrow> (SendFile audio_bytes 200, st)
              | Inl e \<Rightarrow> (Json ''Critical System Error'' 500, st))"
    using assms
    by (cases "text_to_speech s 0 ?re") (simp_all add: process_audio_route_def error_response_json)
  have 1: "snd (process_audio_route cfg g s (Some (SttReturns r)) st) = st"
    unfolding r by (simp split: sum.splits)
  have 2: "fst (process_audio_route cfg g s (Some (SttReturns r)) st) = SendFile a 200"
    if "s 0 ?re = Stream a" "a \<noteq> []" for a
    unfolding r using that by (simp add: text_to_speech_def)
  have 3: "fst (process_audio_route cfg g s (Some (SttReturns r)) st) = SendFile fb 200"
    if "\<forall>a. s 0 ?re = Stream a \<longrightarrow> a = []" "s 1 ?fb = Stream fb" "fb \<noteq> []" for fb
    unfolding r using that by (cases "s 0 ?re") (simp_all add: text_to_speech_def)
  have 4: "fst (process_audio_route cfg g s (Some (SttReturns r)) st) = Json ''Critical System Error'' 500"
    if "\<forall>a. s 0 ?re = Stream a \<longrightarrow> a = []" "\<forall>fb. s 1 ?fb = Stream fb \<longrightarrow> fb = []"
    unfolding r using that
    by (cases "s 0 ?re"; cases "s 1 ?fb") (simp_all add: text_to_speech_def)
  show ?thesis using 1 2 3 4 by blast
qed

text \<open>
  An empty transcript with a speech service whose first call raises: the response is the
  audio of the fallback sentence, not of the re-prompt.  With the speech service down it is
  the JSON error.
\<close>

theorem empty_transcript_other_responses:
  "transcript_of (Some [[]]) = [] \<and>
   fst (process_audio_route mock_config no_gemini faltering_speaker (Some (SttReturns (Some [[]])))
          awaiting_session) =
     SendFile (map of_char ''I'm having trouble speaking at the moment. Please try again later.'') 200 \<and>
   fst (process_audio_route mock_config no_gemini faltering_speaker (Some (SttReturns (Some [[]])))
          awaiting_session) \<noteq>
     SendFile (map of_char ''I'm sorry, I didn't catch that. Could you please repeat?'') 200 \<and>
   fst (process_audio_route mock_config no_gemini silent_speaker (Some (SttReturns (Some [[]])))
          awaiting_session) =
     Json ''Critical System Error'' 500"
  by (simp add: process_audio_route_def text_to_speech_def faltering_speaker_def
        silent_speaker_def error_response_json)

theorem empty_transcript_keeps_session_witness:
  "transcript_of (Some [[]]) = [] \<and>
   process_audio_route mock_config no_gemini clear_speaker (Some (SttReturns (Some [[]]))) awaiting_session =
     (SendFile (map of_char ''I'm sorry, I didn't catch that. Could you please repeat?'') 200,
      awaiting_session)"
proof -
  have t: "transcript_of (Some [[]]) = []" by simp
  have s: "clear_speaker 0 ''I'm sorry, I didn't catch that. Could you please repeat?'' =
             Stream (map of_char ''I'm sorry, I didn't catch that. Could you please repeat?'')"
    by (simp add: clear_speaker_def)
  show ?thesis
    using t s empty_transcript_keeps_session[OF t, of mock_config no_gemini clear_speaker awaiting_session]
    by (simp add: prod_eq_iff)
qed

text \<open>
  C5.  In a turn with a transcript after which \<^verbatim>\<open>customer_info\<close> is still \<^verbatim>\<open>None\<close>, the
  agent's reply is the last message of the history, and the turn ends with
  \<^verbatim>\<open>asked_for_name_in_last_turn\<close> set exactly when the lower-cased reply contains
  \<^verbatim>\<open>name\<close> together with \<^verbatim>\<open>what is your\<close> or \<^verbatim>\<open>could you tell me\<close>.
\<close>

theorem name_request_rule:
  assumes "request_transcript audio \<noteq> []"
    and "customer_info (snd (process_audio_route cfg g s audio st)) = None"
  shows "\<exists>b. last (conversation_history (snd (process_audio_route cfg g s audio st))) = Message model b \<and>
             (asked_for_name_in_last_turn (snd (process_audio_route cfg g s audio st)) \<longleftrightarrow>
                contains ''name'' (lower b) \<and>
                (contains ''what is your'' (lower b) \<or> contains ''could you tell me'' (lower b)))"
proof -
  let ?t = "request_transcript audio"
  let ?st1 = "after_hearing cfg ?t st"
  let ?res = "process_audio_route cfg g s audio st"
  have none: "customer_info ?st1 = None"
  proof (cases "generate_system_prompt (customer_info ?st1)")
    case (Inl e)
    then show ?thesis using turn_compose_fails[OF refl assms(1) Inl, of g s] assms(2) by simp
  next
    case p: (Inr p)
    show ?thesis
    proof (cases "call_gemini_model cfg g ?st1 p (conversation_history ?st1)")
      case (Inl e)
      then show ?thesis using turn_engine_fails[OF refl assms(1) p Inl, of s] assms(2) by simp
    next
      case b: (Inr b)
      show ?thesis
        using assms(2) turn_replied[OF refl assms(1) p b, of s]
        by (cases "text_to_speech s 0 b") (simp_all add: info_after_reply)
    qed
  qed
  obtain p where p: "generate_system_prompt (customer_info ?st1) = Inr p"
    using none unknown_prompt by simp
  obtain b where b: "call_gemini_model cfg g ?st1 p (conversation_history ?st1) = Inr b"
    using mock_reply_without_customer[OF none] by blast
  have res: "snd ?res = after_reply p b ?st1"
    using turn_replied[OF refl assms(1) p b, of s] by (cases "text_to_speech s 0 b") simp_all
  have "conversation_history (snd ?res) \<noteq> [] \<and> last (conversation_history (snd ?res)) = Message model b"
    unfolding res history_after_reply history_after_hearing by simp
  moreover have "asked_for_name_in_last_turn (snd ?res) \<longleftrightarrow>
                contains ''name'' (lower b) \<and>
                (contains ''what is your'' (lower b) \<or> contains ''could you tell me'' (lower b))"
    unfolding res flag_after_reply
    using flag_after_hearing[OF none] none placeholder_in_prompt[OF p]
    by (simp add: note_name_request_def)
  ultimately show ?thesis by blast
qed

lemma asking_reply:
  "live_reply asking_gemini p h = ''May I ask, what is your name?''"
  by (simp add: live_reply_def asking_gemini_def strip_def strip_chars_def whitespace_def number_whitespace_def)

lemma asking_turn:
  "snd (process_audio_route live_config asking_gemini clear_speaker hello_audio initial_call_data) =
     \<lparr>customer_info = None,
      conversation_history = [Message user ''hello'', Message model ''May I ask, what is your name?''],
      asked_for_name_in_last_turn = True\<rparr>"
proof -
  have h: "after_hearing live_config ''hello'' initial_call_data =
             \<lparr>customer_info = None, conversation_history = [Message user ''hello''],
              asked_for_name_in_last_turn = False\<rparr>"
    by (simp add: resolve_identity_def append_customer_utterance_def initial_call_data_def)
  have p: "generate_system_prompt (customer_info (after_hearing live_config ''hello'' initial_call_data)) =
             Inr (str_format LLM_SYSTEM_PROMPT_TEMPLATE unknown_customer_args)"
    by (simp add: h unknown_prompt)
  have b: "call_gemini_model live_config asking_gemini (after_hearing live_config ''hello'' initial_call_data)
             (str_format LLM_SYSTEM_PROMPT_TEMPLATE unknown_customer_args)
             (conversation_history (after_hearing live_config ''hello'' initial_call_data)) =
           Inr ''May I ask, what is your name?''"
    by (simp add: call_gemini_model_def live_config_def asking_reply)
  have t: "''hello'' \<noteq> []" by simp
  have a: "after_reply (str_format LLM_SYSTEM_PROMPT_TEMPLATE unknown_customer_args)
             ''May I ask, what is your name?''
             \<lparr>customer_info = None, conversation_history = [Message user ''hello''],
              asked_for_name_in_last_turn = False\<rparr> =
           \<lparr>customer_info = None,
            conversation_history = [Message user ''hello'', Message model ''May I ask, what is your name?''],
            asked_for_name_in_last_turn = True\<rparr>"
    using placeholder_in_prompt[OF unknown_prompt]
    by (simp add: note_name_request_def append_agent_utterance_def trim_history_def
          MAX_HISTORY_TURNS_def lower_def lower_char_def)
  show ?thesis
    using turn_replied[OF hello_transcript t p b, of clear_speaker]
    by (simp add: speak_clear h a)
qed

theorem name_request_rule_witness:
  "request_transcript hello_audio = ''hello'' \<and>
   customer_info
     (snd (process_audio_route live_config asking_gemini clear_speaker hello_audio initial_call_data)) = None \<and>
   last (conversation_history
     (snd (process_audio_route live_config asking_gemini clear_speaker hello_audio initial_call_data))) =
     Message model ''May I ask, what is your name?'' \<and>
   contains ''name'' (lower ''May I ask, what is your name?'') \<and>
   contains ''what is your'' (lower ''May I ask, what is your name?'') \<and>
   asked_for_name_in_last_turn
     (snd (process_audio_route live_config asking_gemini clear_speaker hello_audio initial_call_data))"
proof -
  have t: "request_transcript hello_audio \<noteq> []" by (simp add: hello_transcript)
  have n: "customer_info
     (snd (process_audio_route live_config asking_gemini clear_speaker hello_audio initial_call_data)) = None"
    by (simp add: asking_turn)
  have c: "contains ''name'' (lower ''May I ask, what is your name?'') \<and>
           contains ''what is your'' (lower ''May I ask, what is your name?'')"
    by (simp add: lower_def lower_char_def)
  show ?thesis
    using name_request_rule[OF t n] c by (simp add: hello_transcript asking_turn)
qed

text \<open>
  C4.  After a completed turn (a transcript, and the reply returned as audio with status
  200) the history has at most \<open>2 * MAX_HISTORY_TURNS = 20\<close> messages: it is the end of the
  old history followed by the customer's and the agent's utterance, so the oldest messages
  are the ones dropped, and it alternates between the roles when the untrimmed history does.
\<close>

theorem history_bounded_after_turn:
  assumes "process_audio_route cfg g s audio st = (SendFile a 200, st')"
    and "request_transcript audio \<noteq> []"
  shows "length (conversation_history st') \<le> 2 * MAX_HISTORY_TURNS \<and> 2 * MAX_HISTORY_TURNS = 20 \<and>
         (\<exists>b. conversation_history st' =
                 drop (length (conversation_history st) + 2 - 20)
                   (conversation_history st @
                      [Message user (request_transcript audio), Message model b]) \<and>
               (alternating (conversation_history st @
                      [Message user (request_transcript audio), Message model b]) \<longrightarrow>
                alternating (conversation_history st')))"
proof -
  obtain p b where
    st': "st' = after_reply p b (after_hearing cfg (request_transcript audio) st)"
    using turn_completed[OF assms] by blast
  have h: "conversation_history st' =
             drop (length (conversation_history st) + 2 - 20)
               (conversation_history st @
                  [Message user (request_transcript audio), Message model b])"
    unfolding st' history_after_reply history_after_hearing by simp
  have l: "length (conversation_history st') \<le> 2 * MAX_HISTORY_TURNS"
    unfolding h by (simp add: MAX_HISTORY_TURNS_def)
  have m: "2 * MAX_HISTORY_TURNS = 20"
    by (simp add: MAX_HISTORY_TURNS_def)
  have alt: "alternating (conversation_history st @
                [Message user (request_transcript audio), Message model b]) \<longrightarrow>
             alternating (conversation_history st')"
    unfolding h by (intro impI alternating_drop)
  show ?thesis using l m h alt by blast
qed

lemma nine_turns_length: "length (conversation_history nine_turns) = 19"
  by (simp add: nine_turns_def eval_nat_numeral)

theorem history_bounded_after_turn_witness:
  "process_audio_route mock_config no_gemini clear_speaker hello_audio nine_turns =
     (SendFile (map of_char MOCK_ASK_NAME) 200,
      snd (process_audio_route mock_config no_gemini clear_speaker hello_audio nine_turns)) \<and>
   request_transcript hello_audio = ''hello'' \<and>
   length (conversation_history nine_turns) = 19 \<and>
   length (conversation_history
      (snd (process_audio_route mock_config no_gemini clear_speaker hello_audio nine_turns))) \<le> 20 \<and>
   conversation_history
      (snd (process_audio_route mock_config no_gemini clear_speaker hello_audio nine_turns)) =
     tl (conversation_history nine_turns) @ [Message user ''hello'', Message model MOCK_ASK_NAME]"
proof -
  have c: "\<not> gemini_configured mock_config" by (simp add: mock_config_def)
  have n: "customer_info nine_turns = None" "\<not> asked_for_name_in_last_turn nine_turns"
    by (simp_all add: nine_turns_def)
  have ne: "MOCK_ASK_NAME \<noteq> []" by (simp add: MOCK_ASK_NAME_def)
  have t: "''hello'' \<noteq> []" by simp
  have r: "process_audio_route mock_config no_gemini clear_speaker hello_audio nine_turns =
     (SendFile (map of_char MOCK_ASK_NAME) 200,
      snd (process_audio_route mock_config no_gemini clear_speaker hello_audio nine_turns))"
    using mock_turn_without_customer[OF c n hello_transcript t, of no_gemini clear_speaker]
    by (simp add: speak_clear[OF ne])
  have ht: "request_transcript hello_audio \<noteq> []" by (simp add: hello_transcript)
  obtain b where b: "conversation_history
      (snd (process_audio_route mock_config no_gemini clear_speaker hello_audio nine_turns)) =
      drop (length (conversation_history nine_turns) + 2 - 20)
        (conversation_history nine_turns @ [Message user (request_transcript hello_audio), Message model b])"
    and l: "length (conversation_history
      (snd (process_audio_route mock_config no_gemini clear_speaker hello_audio nine_turns))) \<le> 2 * MAX_HISTORY_TURNS"
    using history_bounded_after_turn[OF r ht] by blast
  have s: "conversation_history
      (snd (process_audio_route mock_config no_gemini clear_speaker hello_audio nine_turns)) =
     tl (conversation_history nine_turns) @ [Message user ''hello'', Message model MOCK_ASK_NAME]"
    using mock_turn_without_customer[OF c n hello_transcript t, of no_gemini clear_speaker]
    by (simp add: speak_clear[OF ne] history_after_reply history_after_hearing nine_turns_length)
       (simp add: nine_turns_def)
  show ?thesis using r l s by (simp add: hello_transcript nine_turns_length MAX_HISTORY_TURNS_def)
qed

text \<open>
  C2.  The specification has a turn that ends in an error leave the session as it was.  The
  code has no step that restores the session, and what holds is this.  A turn that ends in
  an error before the customer's utterance is appended (no audio in the request, a failing
  transcription, an empty transcript whose re-prompt cannot be spoken) leaves the session as
  it was.  A turn whose prompt is composed and whose reply is produced ends in an error
  only when the reply cannot be spoken, and then the whole turn stays in the session: the
  customer's utterance and the reply appended, the flag set anew, the history trimmed.
\<close>

theorem turn_error_keeps_earlier_updates:
  assumes "failed (fst (process_audio_route cfg g s audio st))"
  shows "(request_transcript audio = [] \<longrightarrow> snd (process_audio_route cfg g s audio st) = st) \<and>
         (\<forall>p b. request_transcript audio \<noteq> [] \<and>
                generate_system_prompt
                  (customer_info (after_hearing cfg (request_transcript audio) st)) = Inr p \<and>
                call_gemini_model cfg g (after_hearing cfg (request_transcript audio) st) p
                  (conversation_history (after_hearing cfg (request_transcript audio) st)) = Inr b \<longrightarrow>
              (\<exists>e. text_to_speech s 0 b = Inl e) \<and>
              snd (process_audio_route cfg g s audio st) =
                after_reply p b (after_hearing cfg (request_transcript audio) st) \<and>
              conversation_history (snd (process_audio_route cfg g s audio st)) =
                drop (length (conversation_history st) + 2 - 20)
                  (conversation_history st @
                     [Message user (request_transcript audio), Message model b]))"
proof (intro conjI impI allI)
  assume "request_transcript audio = []"
  then show "snd (process_audio_route cfg g s audio st) = st" by (rule turn_empty)
next
  fix p b
  let ?st1 = "after_hearing cfg (request_transcript audio) st"
  assume a: "request_transcript audio \<noteq> [] \<and>
             generate_system_prompt (customer_info ?st1) = Inr p \<and>
             call_gemini_model cfg g ?st1 p (conversation_history ?st1) = Inr b"
  then have t: "request_transcript audio \<noteq> []"
    and p: "generate_system_prompt (customer_info ?st1) = Inr p"
    and b: "call_gemini_model cfg g ?st1 p (conversation_history ?st1) = Inr b"
    by blast+
  have r: "(\<exists>e. text_to_speech s 0 b = Inl e) \<and>
           snd (process_audio_route cfg g s audio st) = after_reply p b ?st1"
    using assms turn_replied[OF refl t p b, of s]
    by (cases "text_to_speech s 0 b") (simp_all add: failed_def)
  have h: "conversation_history (after_reply p b ?st1) =
             drop (length (conversation_history st) + 2 - 20)
               (conversation_history st @
                  [Message user (request_transcript audio), Message model b])"
    unfolding history_after_reply history_after_hearing by simp
  from r show "\<exists>e. text_to_speech s 0 b = Inl e" by blast
  from r show "snd (process_audio_route cfg g s audio st) = after_reply p b ?st1" by blast
  from r h show "conversation_history (snd (process_audio_route cfg g s audio st)) =
                drop (length (conversation_history st) + 2 - 20)
                  (conversation_history st @
                     [Message user (request_transcript audio), Message model b])"
    by simp
qed

text \<open>
  A turn that ends in an error and changes the session: with the speech service down, the
  first turn of a session answers with the error and leaves the customer's utterance and
  the reply in the history.
\<close>

theorem turn_error_changes_session:
  "failed (fst (process_audio_route mock_config no_gemini silent_speaker hello_audio initial_call_data)) \<and>
   conversation_history
     (snd (process_audio_route mock_config no_gemini silent_speaker hello_audio initial_call_data)) =
     [Message user ''hello'', Message model MOCK_ASK_NAME] \<and>
   snd (process_audio_route mock_config no_gemini silent_speaker hello_audio initial_call_data) \<noteq>
     initial_call_data"
  by (simp add: hello_turn_silent failed_def) (simp add: initial_call_data_def)

theorem turn_error_keeps_earlier_updates_witness:
  "failed (fst (process_audio_route mock_config no_gemini silent_speaker hello_audio initial_call_data)) \<and>
   request_transcript hello_audio = ''hello'' \<and>
   generate_system_prompt (customer_info (after_hearing mock_config ''hello'' initial_call_data)) =
     Inr (str_format LLM_SYSTEM_PROMPT_TEMPLATE unknown_customer_args) \<and>
   call_gemini_model mock_config no_gemini (after_hearing mock_config ''hello'' initial_call_data)
     (str_format LLM_SYSTEM_PROMPT_TEMPLATE unknown_customer_args)
     (conversation_history (after_hearing mock_config ''hello'' initial_call_data)) = Inr MOCK_ASK_NAME \<and>
   text_to_speech silent_speaker 0 MOCK_ASK_NAME = Inl ExternalError \<and>
   conversation_history
     (snd (process_audio_route mock_config no_gemini silent_speaker hello_audio initial_call_data)) =
     [Message user ''hello'', Message model MOCK_ASK_NAME]"
proof -
  have f: "failed (fst (process_audio_route mock_config no_gemini silent_speaker hello_audio
                          initial_call_data))"
    by (simp add: hello_turn_silent failed_def)
  have h: "after_hearing mock_config ''hello'' initial_call_data =
             \<lparr>customer_info = None, conversation_history = [Message user ''hello''],
              asked_for_name_in_last_turn = False\<rparr>"
    by (simp add: resolve_identity_def append_customer_utterance_def initial_call_data_def)
  have p: "generate_system_prompt (customer_info (after_hearing mock_config ''hello'' initial_call_data)) =
             Inr (str_format LLM_SYSTEM_PROMPT_TEMPLATE unknown_customer_args)"
    by (simp add: h unknown_prompt)
  have b: "call_gemini_model mock_config no_gemini (after_hearing mock_config ''hello'' initial_call_data)
             (str_format LLM_SYSTEM_PROMPT_TEMPLATE unknown_customer_args)
             (conversation_history (after_hearing mock_config ''hello'' initial_call_data)) =
           Inr MOCK_ASK_NAME"
    unfolding h by (simp add: call_gemini_model_def mock_config_def)
  have ne: "request_transcript hello_audio \<noteq> []"
    by (simp add: hello_transcript)
  have p': "generate_system_prompt
              (customer_info (after_hearing mock_config (request_transcript hello_audio) initial_call_data)) =
            Inr (str_format LLM_SYSTEM_PROMPT_TEMPLATE unknown_customer_args)"
    unfolding hello_transcript by (rule p)
  have b': "call_gemini_model mock_config no_gemini
              (after_hearing mock_config (request_transcript hello_audio) initial_call_data)
              (str_format LLM_SYSTEM_PROMPT_TEMPLATE unknown_customer_args)
              (conversation_history
                 (after_hearing mock_config (request_transcript hello_audio) initial_call_data)) =
            Inr MOCK_ASK_NAME"
    unfolding hello_transcript by (rule b)
  have c: "conversation_history
     (snd (process_audio_route mock_config no_gemini silent_speaker hello_audio initial_call_data)) =
     drop (length (conversation_history initial_call_data) + 2 - 20)
       (conversation_history initial_call_data @
          [Message user (request_transcript hello_audio), Message model MOCK_ASK_NAME])"
    using turn_error_keeps_earlier_updates[OF f] ne p' b' by blast
  show ?thesis
    using f p b c by (simp add: hello_transcript speak_silent initial_call_data_def)
qed

end
